theory Spec2Isabelle
  imports Main "HOL-Library.Sublist"
begin

section \<open>Conventions of the embedding\<close>

text \<open>
  The TypeScript sources are embedded function by function.  A JavaScript \<open>number\<close> is an
  \<open>int\<close> (minutes, added time, coordinates, score; fractional values, NaN and the
  infinities are outside the model), a \<open>string\<close> is a \<open>string\<close>, an optional field is an
  \<open>option\<close> (\<open>None\<close> is \<open>undefined\<close>), \<open>Map<string, PlayerState>\<close> is a map from names
  to records, and a mutating method takes the state and returns the new one.

  An optional string tested by \<open>if (e.actor)\<close> is tested for truthiness: \<open>undefined\<close> and
  the empty string both fail the test.  An array read \<open>xs[i]\<close> out of range gives
  \<open>undefined\<close>; reading a property of \<open>undefined\<close> throws a TypeError.
\<close>

datatype exn = TypeError

definition truthy :: "string option \<Rightarrow> bool" where
  "truthy s = (case s of None \<Rightarrow> False | Some v \<Rightarrow> v \<noteq> [])"

fun at_index :: "'a list \<Rightarrow> nat \<Rightarrow> 'a option" where
  "at_index [] i = None"
| "at_index (v # vs) 0 = Some v"
| "at_index (v # vs) (Suc i) = at_index vs i"

section \<open>types/events.ts\<close>

record PitchPosition =
  x :: int
  y :: int

datatype EventType =
    t_whistle | t_dead_ball
  | t_speak | t_announce | t_comment
  | t_pass | t_intercept | t_hold
  | t_move | t_exit
  | t_card | t_penalty | t_goal
  | t_pause | t_halftime | t_fulltime

datatype CardType = yellow | red

text \<open>
  \<open>reason\<close> is \<open>z.union([WhistleReason, z.string()])\<close>: any string; the engine compares it
  with the whistle reasons as strings.
\<close>

record MatchEvent =
  minute :: int
  added :: "int option"
  "type" :: EventType
  actor :: "string option"
  "text" :: "string option"
  tone :: "string option"
  pause_ms :: "int option"
  "from" :: "string option"
  to :: "string option"
  position :: "PitchPosition option"
  card_kind :: "CardType option"
  reason :: "string option"
  direction :: "string option"

section \<open>types/match.ts\<close>

datatype PositionRole = tender_role | defender_role | midfielder_role | forward_role

record Player =
  name :: string
  role :: PositionRole
  voice :: string

record Team =
  code :: string
  name :: string
  tender :: Player
  field :: "Player list"

record Official =
  name :: string
  voice :: string

record Officials =
  referee :: Official
  pbp :: Official
  color :: Official

record MatchMeta =
  match_id :: string
  season :: int
  title :: string
  home :: Team
  away :: Team
  officials :: Officials

record MatchScript =
  match :: MatchMeta
  events :: "MatchEvent list"

section \<open>types/state.ts\<close>

datatype Side = home_side | away_side

text \<open>
  A player's position is optional in the model only because \<open>initializeState\<close> reads
  \<open>homeFieldPositions[i]\<close>, which is \<open>undefined\<close> from the fifth field player on; the ball
  copies it with \<open>{ ...ps.position }\<close>, which then has no coordinates (\<open>None\<close>).
\<close>

record PlayerState =
  player :: Player
  team :: Side
  position :: "PitchPosition option"
  hasBall :: bool
  onPitch :: bool
  cards :: "CardType list"

record BallState =
  holder :: "string option"
  position :: "PitchPosition option"
  dead :: bool

record Score =
  home :: int
  away :: int

datatype MatchPeriod = pre | first_half | halftime | second_half | fulltime

record ClockState =
  minute :: int
  added :: int
  period :: MatchPeriod

record MatchState =
  meta :: MatchMeta
  clock :: ClockState
  score :: Score
  ball :: BallState
  players :: "string \<rightharpoonup> PlayerState"
  eventIndex :: nat
  totalEvents :: nat

record FormationPositions =
  tender :: PitchPosition
  defender :: PitchPosition
  midfielder_left :: PitchPosition
  midfielder_right :: PitchPosition
  forward :: PitchPosition

definition defaultPositions :: "Side \<Rightarrow> FormationPositions" where
  "defaultPositions t =
     (let sign = (if t = home_side then - 1 else 1) in
      \<lparr> FormationPositions.tender = \<lparr>x = sign * 46, y = 0\<rparr>,
        defender = \<lparr>x = sign * 30, y = 0\<rparr>,
        midfielder_left = \<lparr>x = sign * 15, y = - 12\<rparr>,
        midfielder_right = \<lparr>x = sign * 15, y = 12\<rparr>,
        forward = \<lparr>x = sign * 5, y = 0\<rparr> \<rparr>)"

section \<open>engine/clock.ts\<close>

definition derivePeriod :: "int \<Rightarrow> MatchPeriod \<Rightarrow> MatchPeriod" where
  "derivePeriod m currentPeriod =
     (if currentPeriod = pre \<and> m = 0 then first_half
      else if currentPeriod = halftime then second_half
      else if m \<le> 45 then first_half
      else second_half)"

definition advanceClock :: "ClockState \<Rightarrow> int \<Rightarrow> int option \<Rightarrow> ClockState" where
  "advanceClock current m a =
     \<lparr> ClockState.minute = m,
       ClockState.added = (case a of None \<Rightarrow> 0 | Some v \<Rightarrow> v),
       period = derivePeriod m (period current) \<rparr>"

definition initialClock :: ClockState where
  "initialClock = \<lparr> ClockState.minute = 0, ClockState.added = 0, period = pre \<rparr>"

section \<open>engine/engine.ts\<close>

definition center :: PitchPosition where
  "center = \<lparr>x = 0, y = 0\<rparr>"

definition newPlayerState :: "Player \<Rightarrow> Side \<Rightarrow> PitchPosition option \<Rightarrow> PlayerState" where
  "newPlayerState p t pos =
     \<lparr> player = p, team = t, PlayerState.position = pos,
       hasBall = False, onPitch = True, cards = [] \<rparr>"

text \<open>
  \<open>team.field.forEach((p, i) => players.set(p.name, {..., position: fieldPositions[i]}))\<close>:
  a later player of the same name replaces the earlier entry.
\<close>

fun setFieldPlayers ::
  "Side \<Rightarrow> PitchPosition list \<Rightarrow> nat \<Rightarrow> Player list \<Rightarrow>
   (string \<rightharpoonup> PlayerState) \<Rightarrow> (string \<rightharpoonup> PlayerState)" where
  "setFieldPlayers t fieldPositions i [] m = m"
| "setFieldPlayers t fieldPositions i (p # ps) m =
     setFieldPlayers t fieldPositions (Suc i) ps
       (m(Player.name p \<mapsto> newPlayerState p t (at_index fieldPositions i)))"

definition fieldPositionsOf :: "FormationPositions \<Rightarrow> PitchPosition list" where
  "fieldPositionsOf fp =
     [defender fp, midfielder_left fp, midfielder_right fp, forward fp]"

definition initializeState :: "MatchScript \<Rightarrow> MatchState" where
  "initializeState script =
     (let m = match script;
          homePos = defaultPositions home_side;
          p1 = Map.empty(Player.name (Team.tender (MatchMeta.home m)) \<mapsto>
                 newPlayerState (Team.tender (MatchMeta.home m)) home_side
                   (Some (FormationPositions.tender homePos)));
          p2 = setFieldPlayers home_side (fieldPositionsOf homePos) 0
                 (field (MatchMeta.home m)) p1;
          awayPos = defaultPositions away_side;
          p3 = p2(Player.name (Team.tender (MatchMeta.away m)) \<mapsto>
                 newPlayerState (Team.tender (MatchMeta.away m)) away_side
                   (Some (FormationPositions.tender awayPos)));
          p4 = setFieldPlayers away_side (fieldPositionsOf awayPos) 0
                 (field (MatchMeta.away m)) p3
      in \<lparr> meta = m,
           clock = initialClock,
           score = \<lparr> Score.home = 0, Score.away = 0 \<rparr>,
           ball = \<lparr> holder = None, BallState.position = Some center, dead = True \<rparr>,
           players = p4,
           eventIndex = 0,
           totalEvents = length (events script) \<rparr>)"

text \<open>
  \<open>giveBall\<close>: the flag of the current holder is cleared first (when \<open>ball.holder\<close> is
  truthy and names a player), whether or not the new name resolves.
\<close>

definition clearHolder :: "MatchState \<Rightarrow> MatchState" where
  "clearHolder s =
     (case holder (ball s) of
        None \<Rightarrow> s
      | Some h \<Rightarrow>
          if h = [] then s
          else (case players s h of
                  None \<Rightarrow> s
                | Some prev \<Rightarrow> s\<lparr>players := (players s)(h \<mapsto> prev\<lparr>hasBall := False\<rparr>)\<rparr>))"

definition giveBall :: "MatchState \<Rightarrow> string \<Rightarrow> MatchState" where
  "giveBall s playerName =
     (let s1 = clearHolder s in
      case players s1 playerName of
        None \<Rightarrow> s1
      | Some ps \<Rightarrow>
          s1\<lparr> players := (players s1)(playerName \<mapsto> ps\<lparr>hasBall := True\<rparr>),
              ball := \<lparr> holder = Some playerName,
                        BallState.position = PlayerState.position ps,
                        dead = False \<rparr> \<rparr>)"

definition deadAtCenter :: "MatchState \<Rightarrow> MatchState" where
  "deadAtCenter s =
     s\<lparr>ball := \<lparr> holder = None, BallState.position = Some center, dead = True \<rparr>\<rparr>"

definition setPeriod :: "MatchPeriod \<Rightarrow> MatchState \<Rightarrow> MatchState" where
  "setPeriod p s = s\<lparr>clock := (clock s)\<lparr>period := p\<rparr>\<rparr>"

definition applyWhistle :: "MatchState \<Rightarrow> MatchEvent \<Rightarrow> MatchState" where
  "applyWhistle s event =
     (let r = reason event;
          s1 = (if r = Some ''kickoff'' then
                  giveBall (s\<lparr>ball := (ball s)\<lparr>dead := False\<rparr>\<rparr>)
                    (Player.name (Team.tender (MatchMeta.home (meta s))))
                else if r = Some ''halftime'' \<or> r = Some ''fulltime'' then deadAtCenter s
                else if r = Some ''stoppage'' then s\<lparr>ball := (ball s)\<lparr>dead := True\<rparr>\<rparr>
                else if r = Some ''restart'' then s\<lparr>ball := (ball s)\<lparr>dead := False\<rparr>\<rparr>
                else s);
          s2 = (if r = Some ''halftime'' then setPeriod halftime s1 else s1)
      in if r = Some ''fulltime'' then setPeriod fulltime s2 else s2)"

definition applyMove :: "MatchState \<Rightarrow> MatchEvent \<Rightarrow> MatchState" where
  "applyMove s event =
     (case (actor event, MatchEvent.position event) of
        (Some a, Some pos) \<Rightarrow>
          if a = [] then s
          else (case players s a of
                  None \<Rightarrow> s
                | Some ps \<Rightarrow>
                    s\<lparr>players := (players s)(a \<mapsto> ps\<lparr>PlayerState.position := Some pos\<rparr>)\<rparr>)
      | _ \<Rightarrow> s)"

definition applyExit :: "MatchState \<Rightarrow> MatchEvent \<Rightarrow> MatchState" where
  "applyExit s event =
     (case actor event of
        None \<Rightarrow> s
      | Some a \<Rightarrow>
          if a = [] then s
          else (case players s a of
                  None \<Rightarrow> s
                | Some ps \<Rightarrow>
                    if hasBall ps then
                      s\<lparr> players := (players s)(a \<mapsto> ps\<lparr>onPitch := False, hasBall := False\<rparr>),
                         ball := (ball s)\<lparr>dead := True, holder := None\<rparr> \<rparr>
                    else s\<lparr>players := (players s)(a \<mapsto> ps\<lparr>onPitch := False\<rparr>)\<rparr>))"

definition applyCard :: "MatchState \<Rightarrow> MatchEvent \<Rightarrow> MatchState" where
  "applyCard s event =
     (case (actor event, card_kind event) of
        (Some a, Some c) \<Rightarrow>
          if a = [] then s
          else (case players s a of
                  None \<Rightarrow> s
                | Some ps \<Rightarrow> s\<lparr>players := (players s)(a \<mapsto> ps\<lparr>cards := cards ps @ [c]\<rparr>)\<rparr>)
      | _ \<Rightarrow> s)"

definition applyGoal :: "MatchState \<Rightarrow> MatchEvent \<Rightarrow> MatchState" where
  "applyGoal s event =
     (case actor event of
        None \<Rightarrow> s
      | Some a \<Rightarrow>
          if a = [] then s
          else deadAtCenter
                 (case players s a of
                    None \<Rightarrow> s
                  | Some ps \<Rightarrow>
                      if team ps = home_side
                      then s\<lparr>score := (score s)\<lparr>Score.home := Score.home (score s) + 1\<rparr>\<rparr>
                      else s\<lparr>score := (score s)\<lparr>Score.away := Score.away (score s) + 1\<rparr>\<rparr>))"

text \<open>\<open>if (name) this.giveBall(name)\<close>, for the optional name of a pass, intercept or hold.\<close>

definition giveBallTo :: "MatchState \<Rightarrow> string option \<Rightarrow> MatchState" where
  "giveBallTo s n =
     (case n of
        None \<Rightarrow> s
      | Some a \<Rightarrow> if a = [] then s else giveBall s a)"

definition applyEvent :: "MatchState \<Rightarrow> MatchEvent \<Rightarrow> MatchState" where
  "applyEvent s event =
     (case type event of
        t_whistle \<Rightarrow> applyWhistle s event
      | t_halftime \<Rightarrow> deadAtCenter (setPeriod halftime s)
      | t_fulltime \<Rightarrow>
          (setPeriod fulltime s)\<lparr>ball := (ball s)\<lparr>dead := True, holder := None\<rparr>\<rparr>
      | t_pass \<Rightarrow> giveBallTo s (to event)
      | t_intercept \<Rightarrow> giveBallTo s (actor event)
      | t_hold \<Rightarrow> giveBallTo s (actor event)
      | t_move \<Rightarrow> applyMove s event
      | t_exit \<Rightarrow> applyExit s event
      | t_card \<Rightarrow> applyCard s event
      | t_goal \<Rightarrow> applyGoal s event
      | t_dead_ball \<Rightarrow> deadAtCenter s
      | _ \<Rightarrow> s)"

text \<open>
  \<open>run\<close> without dispatchers and pacing: for each index the cursor is set, the clock is
  advanced with the event's minute and added time, and the event is applied.
\<close>

function runLoop :: "MatchEvent list \<Rightarrow> nat \<Rightarrow> MatchState \<Rightarrow> exn + MatchState" where
  "runLoop evs i s =
     (if i < length evs then
        (case at_index evs i of
           None \<Rightarrow> Inl TypeError
         | Some event \<Rightarrow>
             runLoop evs (Suc i)
               (applyEvent
                  (s\<lparr> eventIndex := i,
                      clock := advanceClock (clock s) (MatchEvent.minute event)
                                 (MatchEvent.added event) \<rparr>)
                  event))
      else Inr s)"
  by pat_completeness auto
termination
  by (relation "measure (\<lambda>(evs, i, s). length evs - i)") auto

declare runLoop.simps [simp del]

definition run :: "MatchScript \<Rightarrow> exn + MatchState" where
  "run script = runLoop (events script) 0 (initializeState script)"

section \<open>Strings of the host language\<close>

text \<open>
  A template literal renders an array index or a length in decimal (\<open>natToString\<close>) and an
  integer-valued number in decimal with its sign (\<open>numberToString\<close>); \<open>join\<close> is
  \<open>Array.prototype.join\<close>.  \<open>String.prototype.toUpperCase\<close> is not modelled: it is a
  parameter of the schemas that use it.
\<close>

definition sq :: char where "sq = CHR 0x27"
definition dq :: char where "dq = CHR 0x22"

definition digitChar :: "nat \<Rightarrow> char" where
  "digitChar d = ''0123456789'' ! d"

definition isDigit :: "char \<Rightarrow> bool" where
  "isDigit c = (c \<in> set ''0123456789'')"

fun natToString :: "nat \<Rightarrow> string" where
  "natToString n =
     (if n < 10 then [digitChar n] else natToString (n div 10) @ [digitChar (n mod 10)])"

declare natToString.simps [simp del]

definition numberToString :: "int \<Rightarrow> string" where
  "numberToString n = (if n < 0 then CHR ''-'' # natToString (nat (- n)) else natToString (nat n))"

fun join :: "string \<Rightarrow> string list \<Rightarrow> string" where
  "join sep [] = []"
| "join sep [s] = s"
| "join sep (s # t # ts) = s @ sep @ join sep (t # ts)"

section \<open>Values before validation\<close>

text \<open>
  \<open>validateScript(raw: unknown)\<close> receives what the YAML parser returns: a value built
  from null, booleans, numbers, strings, arrays and objects (an object is the list of its
  entries; \<open>propOf\<close> reads a property, \<open>undefined\<close> when it is absent or the value is not
  an object).
\<close>

datatype raw =
    RUndefined | RNull | RBool bool | RNum int | RStr string
  | RArr "raw list" | RObj "(string \<times> raw) list"

definition propOf :: "raw \<Rightarrow> string \<Rightarrow> raw" where
  "propOf v k =
     (case v of
        RObj kvs \<Rightarrow> (case map_of kvs k of None \<Rightarrow> RUndefined | Some w \<Rightarrow> w)
      | _ \<Rightarrow> RUndefined)"

section \<open>The zod schemas\<close>

text \<open>
  The schemas of the repository are built with the zod library, which is not part of the
  repository.  Its parser is modelled as far as these schemas use it (zod 3): a schema
  applied to a value at a path gives the typed value, or the list of all issues found
  (never an empty list).  An object schema parses every key of its shape, in order, on the
  property of that name, collects all issues, and drops unknown keys; an array schema
  checks its length and parses every element under its index.  The message of an issue
  comes from the library's error map unless the schema gives one.  The error map and the
  host's \<open>toUpperCase\<close> (which the team code goes through) are parameters of
  \<open>safeParse\<close> and of \<open>validateScript\<close>.
\<close>

datatype ZodParsedType =
  zt_undefined | zt_null | zt_boolean | zt_number | zt_string | zt_array | zt_object

definition getParsedType :: "raw \<Rightarrow> ZodParsedType" where
  "getParsedType v =
     (case v of
        RUndefined \<Rightarrow> zt_undefined | RNull \<Rightarrow> zt_null | RBool _ \<Rightarrow> zt_boolean
      | RNum _ \<Rightarrow> zt_number | RStr _ \<Rightarrow> zt_string | RArr _ \<Rightarrow> zt_array
      | RObj _ \<Rightarrow> zt_object)"

datatype PathSeg = Key string | Index nat

datatype Sized = sized_string | sized_number | sized_array

datatype ZodIssueCode =
    invalid_type string ZodParsedType
  | invalid_enum_value "string list" string
  | too_small Sized int bool bool
  | too_big Sized int bool bool
  | invalid_string
  | invalid_union

record IssueData =
  code :: ZodIssueCode
  path :: "PathSeg list"
  message :: "string option"

record ZodIssue =
  code :: ZodIssueCode
  path :: "PathSeg list"
  message :: string

definition makeIssue :: "(ZodIssueCode \<Rightarrow> string) \<Rightarrow> IssueData \<Rightarrow> ZodIssue" where
  "makeIssue errorMap d =
     \<lparr> ZodIssue.code = IssueData.code d, ZodIssue.path = IssueData.path d,
       ZodIssue.message =
         (case IssueData.message d of None \<Rightarrow> errorMap (IssueData.code d) | Some m \<Rightarrow> m) \<rparr>"

type_synonym 'a parsed = "IssueData list + 'a"
type_synonym 'a schema = "PathSeg list \<Rightarrow> raw \<Rightarrow> 'a parsed"

definition issue :: "ZodIssueCode \<Rightarrow> PathSeg list \<Rightarrow> 'a parsed" where
  "issue c p = Inl [\<lparr> IssueData.code = c, IssueData.path = p, IssueData.message = None \<rparr>]"

definition invalidType :: "string \<Rightarrow> 'a schema" where
  "invalidType expected p v = issue (invalid_type expected (getParsedType v)) p"

definition issuesOf :: "'a parsed \<Rightarrow> IssueData list" where
  "issuesOf r = (case r of Inl ds \<Rightarrow> ds | Inr _ \<Rightarrow> [])"

definition ap :: "('a \<Rightarrow> 'b) parsed \<Rightarrow> 'a parsed \<Rightarrow> 'b parsed" where
  "ap rf rx =
     (case rf of
        Inr f \<Rightarrow> (case rx of Inr a \<Rightarrow> Inr (f a) | Inl ds \<Rightarrow> Inl ds)
      | Inl ds \<Rightarrow> Inl (ds @ issuesOf rx))"

fun sequence :: "'a parsed list \<Rightarrow> 'a list parsed" where
  "sequence [] = Inr []"
| "sequence (r # rs) = ap (ap (Inr (#)) r) (sequence rs)"

definition zString :: "string schema" where
  "zString p v = (case v of RStr s \<Rightarrow> Inr s | _ \<Rightarrow> invalidType ''string'' p v)"

definition zNumber :: "int schema" where
  "zNumber p v = (case v of RNum n \<Rightarrow> Inr n | _ \<Rightarrow> invalidType ''number'' p v)"

definition zMin :: "int \<Rightarrow> PathSeg list \<Rightarrow> int \<Rightarrow> unit parsed" where
  "zMin lo p n = (if n < lo then issue (too_small sized_number lo True False) p else Inr ())"

definition zMax :: "int \<Rightarrow> PathSeg list \<Rightarrow> int \<Rightarrow> unit parsed" where
  "zMax hi p n = (if hi < n then issue (too_big sized_number hi True False) p else Inr ())"

definition zPositive :: "PathSeg list \<Rightarrow> int \<Rightarrow> unit parsed" where
  "zPositive p n = (if n \<le> 0 then issue (too_small sized_number 0 False False) p else Inr ())"

definition zRange :: "int \<Rightarrow> int \<Rightarrow> int schema" where
  "zRange lo hi p v =
     (case zNumber p v of
        Inl ds \<Rightarrow> Inl ds
      | Inr n \<Rightarrow> ap (ap (Inr (\<lambda>_ _. n)) (zMin lo p n)) (zMax hi p n))"

definition joinValues :: "string list \<Rightarrow> string" where
  "joinValues vs = join '' | '' (map (\<lambda>s. sq # s @ [sq]) vs)"

definition zEnum :: "(string \<times> 'a) list \<Rightarrow> 'a schema" where
  "zEnum options p v =
     (case v of
        RStr s \<Rightarrow>
          (case map_of options s of
             Some c \<Rightarrow> Inr c
           | None \<Rightarrow> issue (invalid_enum_value (map fst options) s) p)
      | _ \<Rightarrow> invalidType (joinValues (map fst options)) p v)"

definition zOptional :: "'a schema \<Rightarrow> 'a option schema" where
  "zOptional inner p v =
     (case v of
        RUndefined \<Rightarrow> Inr None
      | _ \<Rightarrow> (case inner p v of Inl ds \<Rightarrow> Inl ds | Inr a \<Rightarrow> Inr (Some a)))"

text \<open>
  \<open>z.array(element).length(n)\<close>: a wrong length is reported (too big or too small) and
  the elements are still parsed, each under its index.
\<close>

definition exactLengthIssue :: "nat \<Rightarrow> nat \<Rightarrow> PathSeg list \<Rightarrow> IssueData" where
  "exactLengthIssue n len p =
     \<lparr> IssueData.code = (if n < len then too_big sized_array (int n) True True
                           else too_small sized_array (int n) True True),
       IssueData.path = p, IssueData.message = None \<rparr>"

definition zArray :: "'a schema \<Rightarrow> nat option \<Rightarrow> 'a list schema" where
  "zArray element exactLength p v =
     (case v of
        RArr vs \<Rightarrow>
          ap (ap (Inr (\<lambda>_ ys. ys))
                (case exactLength of
                   None \<Rightarrow> Inr ()
                 | Some n \<Rightarrow>
                     if n < length vs \<or> length vs < n
                     then Inl [exactLengthIssue n (length vs) p]
                     else Inr ()))
             (sequence (map (\<lambda>(i, w). element (p @ [Index i]) w) (enumerate 0 vs)))
      | _ \<Rightarrow> invalidType ''array'' p v)"

definition zObject :: "'a schema \<Rightarrow> 'a schema" where
  "zObject shape p v = (case v of RObj _ \<Rightarrow> shape p v | _ \<Rightarrow> invalidType ''object'' p v)"

definition atKey :: "string \<Rightarrow> 'a schema \<Rightarrow> 'a schema" where
  "atKey k inner p v = inner (p @ [Key k]) (propOf v k)"

definition zStringLength :: "nat \<Rightarrow> string schema" where
  "zStringLength n p v =
     (case v of
        RStr s \<Rightarrow>
          if n < length s then issue (too_big sized_string (int n) True True) p
          else if length s < n then issue (too_small sized_string (int n) True True) p
          else Inr s
      | _ \<Rightarrow> invalidType ''string'' p v)"

definition zTransform :: "('a \<Rightarrow> 'b) \<Rightarrow> 'a schema \<Rightarrow> 'b schema" where
  "zTransform f inner p v = ap (Inr f) (inner p v)"

definition zRegex :: "(string \<Rightarrow> bool) \<Rightarrow> string \<Rightarrow> string schema" where
  "zRegex matches msg p v =
     (case v of
        RStr s \<Rightarrow>
          if matches s then Inr s
          else Inl [\<lparr> IssueData.code = invalid_string, IssueData.path = p,
                      IssueData.message = Some msg \<rparr>]
      | _ \<Rightarrow> invalidType ''string'' p v)"

text \<open>The regular expression \<open>/^S\d+M\d+$/\<close>.\<close>

definition matchIdFormat :: "string \<Rightarrow> bool" where
  "matchIdFormat s =
     (case s of
        [] \<Rightarrow> False
      | c # rest \<Rightarrow>
          c = CHR ''S'' \<and> takeWhile isDigit rest \<noteq> [] \<and>
          (case dropWhile isDigit rest of
             [] \<Rightarrow> False
           | d # ds \<Rightarrow> d = CHR ''M'' \<and> ds \<noteq> [] \<and> list_all isDigit ds))"

subsection \<open>types/events.ts\<close>

definition PitchPositionSchema :: "PitchPosition schema" where
  "PitchPositionSchema =
     zObject (\<lambda>p v.
       ap (ap (Inr (\<lambda>a b. \<lparr>x = a, y = b\<rparr>))
             (atKey ''x'' (zRange (- 50) 50) p v))
          (atKey ''y'' (zRange (- 35) 35) p v))"

definition EventTypeSchema :: "EventType schema" where
  "EventTypeSchema =
     zEnum [(''whistle'', t_whistle), (''dead_ball'', t_dead_ball), (''speak'', t_speak),
            (''announce'', t_announce), (''comment'', t_comment), (''pass'', t_pass),
            (''intercept'', t_intercept), (''hold'', t_hold), (''move'', t_move),
            (''exit'', t_exit), (''card'', t_card), (''penalty'', t_penalty),
            (''goal'', t_goal), (''pause'', t_pause), (''halftime'', t_halftime),
            (''fulltime'', t_fulltime)]"

definition WhistleReason :: "string schema" where
  "WhistleReason =
     zEnum [(''kickoff'', ''kickoff''), (''halftime'', ''halftime''), (''fulltime'', ''fulltime''),
            (''stoppage'', ''stoppage''), (''restart'', ''restart'')]"

definition CardTypeSchema :: "CardType schema" where
  "CardTypeSchema = zEnum [(''yellow'', yellow), (''red'', red)]"

text \<open>\<open>z.union([a, b])\<close>: the first option that accepts the value gives the result.\<close>

definition zUnion :: "'a schema \<Rightarrow> 'a schema \<Rightarrow> 'a schema" where
  "zUnion a b p v =
     (case a p v of
        Inr r \<Rightarrow> Inr r
      | Inl _ \<Rightarrow> (case b p v of Inr r \<Rightarrow> Inr r | Inl _ \<Rightarrow> issue invalid_union p))"

definition zNonNegative :: "int schema" where
  "zNonNegative p v =
     (case zNumber p v of Inl ds \<Rightarrow> Inl ds | Inr n \<Rightarrow> ap (Inr (\<lambda>_. n)) (zMin 0 p n))"

definition MatchEventSchema :: "MatchEvent schema" where
  "MatchEventSchema =
     zObject (\<lambda>p v.
       ap (ap (ap (ap (ap (ap (ap (ap (ap (ap (ap (ap (ap
         (Inr (\<lambda>mi ad ty ac te tn pa fr t po ca re di.
            \<lparr> MatchEvent.minute = mi, MatchEvent.added = ad, type = ty, actor = ac,
              text = te, tone = tn, pause_ms = pa, from = fr, to = t,
              MatchEvent.position = po, card_kind = ca, reason = re, direction = di \<rparr>))
         (atKey ''minute'' (zRange 0 90) p v))
         (atKey ''added'' (zOptional zNonNegative) p v))
         (atKey ''type'' EventTypeSchema p v))
         (atKey ''actor'' (zOptional zString) p v))
         (atKey ''text'' (zOptional zString) p v))
         (atKey ''tone'' (zOptional zString) p v))
         (atKey ''pause_ms'' (zOptional zNumber) p v))
         (atKey ''from'' (zOptional zString) p v))
         (atKey ''to'' (zOptional zString) p v))
         (atKey ''position'' (zOptional PitchPositionSchema) p v))
         (atKey ''card'' (zOptional CardTypeSchema) p v))
         (atKey ''reason'' (zOptional (zUnion WhistleReason zString)) p v))
         (atKey ''direction'' (zOptional zString) p v))"

subsection \<open>types/match.ts\<close>

definition VoiceSchema :: "string schema" where
  "VoiceSchema = zString"

definition PositionRoleSchema :: "PositionRole schema" where
  "PositionRoleSchema =
     zEnum [(''tender'', tender_role), (''defender'', defender_role),
            (''midfielder'', midfielder_role), (''forward'', forward_role)]"

definition PlayerSchema :: "Player schema" where
  "PlayerSchema =
     zObject (\<lambda>p v.
       ap (ap (ap (Inr (\<lambda>n r vo. \<lparr> Player.name = n, role = r, Player.voice = vo \<rparr>))
         (atKey ''name'' zString p v))
         (atKey ''role'' PositionRoleSchema p v))
         (atKey ''voice'' VoiceSchema p v))"

definition TeamSchema :: "(string \<Rightarrow> string) \<Rightarrow> Team schema" where
  "TeamSchema toUpperCase =
     zObject (\<lambda>p v.
       ap (ap (ap (ap (Inr (\<lambda>c n t f.
            \<lparr> Team.code = c, Team.name = n, Team.tender = t, field = f \<rparr>))
         (atKey ''code'' (zTransform toUpperCase (zStringLength 3)) p v))
         (atKey ''name'' zString p v))
         (atKey ''tender'' PlayerSchema p v))
         (atKey ''field'' (zArray PlayerSchema (Some 4)) p v))"

definition OfficialSchema :: "Official schema" where
  "OfficialSchema =
     zObject (\<lambda>p v.
       ap (ap (Inr (\<lambda>n vo. \<lparr> Official.name = n, Official.voice = vo \<rparr>))
         (atKey ''name'' zString p v))
         (atKey ''voice'' VoiceSchema p v))"

definition OfficialsSchema :: "Officials schema" where
  "OfficialsSchema =
     zObject (\<lambda>p v.
       ap (ap (ap (Inr (\<lambda>r b c. \<lparr> referee = r, pbp = b, color = c \<rparr>))
         (atKey ''referee'' OfficialSchema p v))
         (atKey ''pbp'' OfficialSchema p v))
         (atKey ''color'' OfficialSchema p v))"

text \<open>\<open>z.number().int().positive()\<close>; the numbers of the model are integers.\<close>

definition zPositiveInt :: "int schema" where
  "zPositiveInt p v =
     (case zNumber p v of Inl ds \<Rightarrow> Inl ds | Inr n \<Rightarrow> ap (Inr (\<lambda>_. n)) (zPositive p n))"

definition MatchMetaSchema :: "(string \<Rightarrow> string) \<Rightarrow> MatchMeta schema" where
  "MatchMetaSchema toUpperCase =
     zObject (\<lambda>p v.
       ap (ap (ap (ap (ap (ap (Inr (\<lambda>i s t h a off.
            \<lparr> match_id = i, season = s, title = t, MatchMeta.home = h, MatchMeta.away = a,
              officials = off \<rparr>))
         (atKey ''id'' (zRegex matchIdFormat ''Format: S1M001'') p v))
         (atKey ''season'' zPositiveInt p v))
         (atKey ''title'' zString p v))
         (atKey ''home'' (TeamSchema toUpperCase) p v))
         (atKey ''away'' (TeamSchema toUpperCase) p v))
         (atKey ''officials'' OfficialsSchema p v))"

definition MatchScriptSchema :: "(string \<Rightarrow> string) \<Rightarrow> MatchScript schema" where
  "MatchScriptSchema toUpperCase =
     zObject (\<lambda>p v.
       ap (ap (Inr (\<lambda>m es. \<lparr> match = m, events = es \<rparr>))
         (atKey ''match'' (MatchMetaSchema toUpperCase) p v))
         (atKey ''events'' (zArray MatchEventSchema None) p v))"

definition safeParse ::
  "(ZodIssueCode \<Rightarrow> string) \<Rightarrow> (string \<Rightarrow> string) \<Rightarrow> raw \<Rightarrow> ZodIssue list + MatchScript" where
  "safeParse errorMap toUpperCase v =
     (case MatchScriptSchema toUpperCase [] v of
        Inl ds \<Rightarrow> Inl (map (makeIssue errorMap) ds)
      | Inr script \<Rightarrow> Inr script)"

section \<open>engine/validator.ts\<close>

record ValidationResult =
  valid :: bool
  errors :: "string list"
  warnings :: "string list"

definition joinPath :: "PathSeg list \<Rightarrow> string" where
  "joinPath p = join ''.'' (map (\<lambda>seg. case seg of Key k \<Rightarrow> k | Index i \<Rightarrow> natToString i) p)"

definition schemaError :: "ZodIssue \<Rightarrow> string" where
  "schemaError i = ''[schema] '' @ joinPath (ZodIssue.path i) @ '': '' @ ZodIssue.message i"

text \<open>
  \<open>addName\<close> closes over the set \<open>allNames\<close> and the list \<open>errors\<close>; here both are passed
  and returned.
\<close>

definition addName :: "string set \<times> string list \<Rightarrow> string \<Rightarrow> string \<Rightarrow> string set \<times> string list" where
  "addName st n context' =
     (let (allNames, errs) = st in
      (insert n allNames,
       if n \<in> allNames
       then errs @ [''[identity] Duplicate name '' @ [dq] @ n @ [dq] @ '' in '' @ context']
       else errs))"

definition addField :: "string \<Rightarrow> string set \<times> string list \<Rightarrow> Player list \<Rightarrow> string set \<times> string list" where
  "addField context' st ps = foldl (\<lambda>acc p. addName acc (Player.name p) context') st ps"

definition formationError :: "Team \<Rightarrow> string" where
  "formationError t =
     ''[formation] '' @ Team.code t @ '' has '' @ natToString (length (field t)) @
     '' field players, expected 4''"

definition eventError :: "nat \<Rightarrow> string \<Rightarrow> string" where
  "eventError i what = ''[events] Event '' @ natToString i @ '': '' @ what"

definition minuteWarning :: "nat \<Rightarrow> int \<Rightarrow> int \<Rightarrow> string" where
  "minuteWarning i cur prev =
     ''[sequence] Event '' @ natToString i @ '': minute '' @ numberToString cur @
     '' < previous '' @ numberToString prev"

text \<open>
  The two loops over the events read \<open>events[i]\<close> (and \<open>events[i - 1]\<close>) and then a
  property of the element: a TypeError where the element is \<open>undefined\<close>.
\<close>

function minuteLoop :: "MatchEvent list \<Rightarrow> nat \<Rightarrow> string list \<Rightarrow> exn + string list" where
  "minuteLoop evs i warns =
     (if i < length evs then
        (case (at_index evs i, if i = 0 then None else at_index evs (i - 1)) of
           (Some cur, Some prev) \<Rightarrow>
             minuteLoop evs (Suc i)
               (if MatchEvent.minute cur < MatchEvent.minute prev
                then warns @ [minuteWarning i (MatchEvent.minute cur) (MatchEvent.minute prev)]
                else warns)
         | _ \<Rightarrow> Inl TypeError)
      else Inr warns)"
  by pat_completeness auto
termination
  by (relation "measure (\<lambda>(evs, i, warns). length evs - i)") auto

declare minuteLoop.simps [simp del]

definition passMissingFrom :: string where
  "passMissingFrom = ''pass missing 'from'' @ [sq]"

definition passMissingTo :: string where
  "passMissingTo = ''pass missing 'to'' @ [sq]"

text \<open>
  One reference check of the event loop: a field (actor, from or to) that is truthy and
  not a known name is an error quoting the field and the name.
\<close>

definition unknownName :: "string set \<Rightarrow> nat \<Rightarrow> string \<Rightarrow> string option \<Rightarrow> string list" where
  "unknownName knownNames i what n =
     (case n of
        None \<Rightarrow> []
      | Some a \<Rightarrow>
          if a \<noteq> [] \<and> a \<notin> knownNames
          then [eventError i (''unknown '' @ what @ '' '' @ [dq] @ a @ [dq])]
          else [])"

definition eventErrors :: "string set \<Rightarrow> nat \<Rightarrow> MatchEvent \<Rightarrow> string list" where
  "eventErrors knownNames i ev =
     unknownName knownNames i ''actor'' (actor ev) @
     unknownName knownNames i (sq # ''from'' @ [sq]) (from ev) @
     unknownName knownNames i (sq # ''to'' @ [sq]) (to ev) @
     (if type ev = t_speak \<and> \<not> truthy (text ev)
      then [eventError i ''speak event has no text''] else []) @
     (if type ev = t_announce \<and> \<not> truthy (text ev)
      then [eventError i ''announce event has no text''] else []) @
     (if type ev = t_pass
      then (if \<not> truthy (from ev) then [eventError i passMissingFrom] else []) @
           (if \<not> truthy (to ev) then [eventError i passMissingTo] else [])
      else [])"

function eventLoop ::
  "string set \<Rightarrow> MatchEvent list \<Rightarrow> nat \<Rightarrow> string list \<Rightarrow> exn + string list" where
  "eventLoop knownNames evs i errs =
     (if i < length evs then
        (case at_index evs i of
           None \<Rightarrow> Inl TypeError
         | Some ev \<Rightarrow> eventLoop knownNames evs (Suc i) (errs @ eventErrors knownNames i ev))
      else Inr errs)"
  by pat_completeness auto
termination
  by (relation "measure (\<lambda>(knownNames, evs, i, errs). length evs - i)") auto

declare eventLoop.simps [simp del]

definition identityCheck :: "MatchMeta \<Rightarrow> string set \<times> string list" where
  "identityCheck m =
     (let st1 = addName ({}, []) (Player.name (Team.tender (MatchMeta.home m)))
                  (Team.code (MatchMeta.home m) @ '' tender'');
          st2 = addField (Team.code (MatchMeta.home m) @ '' field'') st1
                  (field (MatchMeta.home m));
          st3 = addName st2 (Player.name (Team.tender (MatchMeta.away m)))
                  (Team.code (MatchMeta.away m) @ '' tender'');
          st4 = addField (Team.code (MatchMeta.away m) @ '' field'') st3
                  (field (MatchMeta.away m));
          st5 = addName st4 (Official.name (referee (officials m))) ''referee'';
          st6 = addName st5 (Official.name (pbp (officials m))) ''pbp''
      in addName st6 (Official.name (color (officials m))) ''color'')"

definition formationCheck :: "MatchMeta \<Rightarrow> string list" where
  "formationCheck m =
     (if length (field (MatchMeta.home m)) \<noteq> 4 then [formationError (MatchMeta.home m)] else []) @
     (if length (field (MatchMeta.away m)) \<noteq> 4 then [formationError (MatchMeta.away m)] else [])"

definition bookendWarnings :: "MatchEvent list \<Rightarrow> string list \<Rightarrow> exn + string list" where
  "bookendWarnings evs warns =
     (case (if 0 < length evs
            then (case at_index evs 0 of
                    None \<Rightarrow> Inl TypeError
                  | Some firstEv \<Rightarrow>
                      Inr (if type firstEv \<noteq> t_whistle
                           then warns @ [''[sequence] Match does not begin with a whistle'']
                           else warns))
            else Inr warns) of
        Inl e \<Rightarrow> Inl e
      | Inr warns1 \<Rightarrow>
          (case (if length evs = 0 then None else at_index evs (length evs - 1)) of
             None \<Rightarrow> Inr warns1
           | Some lastEv \<Rightarrow>
               Inr (if type lastEv \<noteq> t_fulltime
                    then warns1 @ [''[sequence] Match does not end with fulltime'']
                    else warns1)))"

text \<open>The body of \<open>validateScript\<close> after the schema has accepted the document.\<close>

definition semanticChecks :: "MatchScript \<Rightarrow> exn + ValidationResult" where
  "semanticChecks script =
     (let m = match script;
          evs = events script;
          (allNames, errors1) = identityCheck m;
          errors2 = errors1 @ formationCheck m;
          errors3 = errors2 @ (if length evs = 0 then [''[events] Match has no events''] else [])
      in case minuteLoop evs 1 [] of
           Inl e \<Rightarrow> Inl e
         | Inr warnings1 \<Rightarrow>
             (case eventLoop (allNames \<union> {''referee'', ''pbp'', ''color''}) evs 0 errors3 of
                Inl e \<Rightarrow> Inl e
              | Inr errors4 \<Rightarrow>
                  (case bookendWarnings evs warnings1 of
                     Inl e \<Rightarrow> Inl e
                   | Inr warnings2 \<Rightarrow>
                       Inr \<lparr> valid = (length errors4 = 0), errors = errors4,
                             warnings = warnings2 \<rparr>)))"

definition validateScript ::
  "(ZodIssueCode \<Rightarrow> string) \<Rightarrow> (string \<Rightarrow> string) \<Rightarrow> raw \<Rightarrow> exn + ValidationResult" where
  "validateScript errorMap toUpperCase v =
     (case safeParse errorMap toUpperCase v of
        Inl issues \<Rightarrow> Inr \<lparr> valid = False, errors = map schemaError issues, warnings = [] \<rparr>
      | Inr script \<Rightarrow> semanticChecks script)"


section \<open>A sample match\<close>

definition blankEvent :: "EventType \<Rightarrow> MatchEvent" where
  "blankEvent t =
     \<lparr> MatchEvent.minute = 0, MatchEvent.added = None, type = t, actor = None,
       text = None, tone = None, pause_ms = None, from = None, to = None,
       MatchEvent.position = None, card_kind = None, reason = None, direction = None \<rparr>"

definition samplePlayer :: "string \<Rightarrow> PositionRole \<Rightarrow> Player" where
  "samplePlayer n r = \<lparr> Player.name = n, role = r, Player.voice = ''en-GB-RyanNeural'' \<rparr>"

definition sampleMeta :: "string \<Rightarrow> MatchMeta" where
  "sampleMeta homeTender =
     \<lparr> match_id = ''S1M001'', season = 1, title = ''Opening match'',
       MatchMeta.home =
         \<lparr> Team.code = ''HOM'', Team.name = ''Home'',
           Team.tender = samplePlayer homeTender tender_role,
           field = [samplePlayer ''Bea'' defender_role, samplePlayer ''Cy'' midfielder_role,
                    samplePlayer ''Dee'' midfielder_role, samplePlayer ''Eli'' forward_role] \<rparr>,
       MatchMeta.away =
         \<lparr> Team.code = ''AWY'', Team.name = ''Away'',
           Team.tender = samplePlayer ''Fay'' tender_role,
           field = [samplePlayer ''Gus'' defender_role, samplePlayer ''Hal'' midfielder_role,
                    samplePlayer ''Ida'' midfielder_role, samplePlayer ''Jo'' forward_role] \<rparr>,
       officials =
         \<lparr> referee = \<lparr> Official.name = ''Rex'', Official.voice = ''v1'' \<rparr>,
           pbp = \<lparr> Official.name = ''Pat'', Official.voice = ''v2'' \<rparr>,
           color = \<lparr> Official.name = ''Col'', Official.voice = ''v3'' \<rparr> \<rparr> \<rparr>"

definition kickoffEvent :: MatchEvent where
  "kickoffEvent = (blankEvent t_whistle)\<lparr> actor := Some ''Rex'', reason := Some ''kickoff'' \<rparr>"

definition passEvent :: "string \<Rightarrow> string \<Rightarrow> MatchEvent" where
  "passEvent a b = (blankEvent t_pass)\<lparr> MatchEvent.minute := 1, from := Some a, to := Some b \<rparr>"

definition actorEvent :: "EventType \<Rightarrow> string \<Rightarrow> MatchEvent" where
  "actorEvent t a = (blankEvent t)\<lparr> MatchEvent.minute := 2, actor := Some a \<rparr>"

definition sampleScript :: "string \<Rightarrow> MatchEvent list \<Rightarrow> MatchScript" where
  "sampleScript homeTender evs = \<lparr> match = sampleMeta homeTender, events = evs \<rparr>"

definition rawPlayer :: "string \<Rightarrow> string \<Rightarrow> raw" where
  "rawPlayer n r = RObj [(''name'', RStr n), (''role'', RStr r), (''voice'', RStr ''en-GB-RyanNeural'')]"

definition rawOfficial :: "string \<Rightarrow> string \<Rightarrow> raw" where
  "rawOfficial n v = RObj [(''name'', RStr n), (''voice'', RStr v)]"

definition rawHomeField :: "raw list" where
  "rawHomeField = [rawPlayer ''Bea'' ''defender'', rawPlayer ''Cy'' ''midfielder'',
                   rawPlayer ''Dee'' ''midfielder'', rawPlayer ''Eli'' ''forward'']"

definition sampleDocument :: "raw list \<Rightarrow> raw list \<Rightarrow> raw" where
  "sampleDocument homeField evs =
     RObj [(''match'', RObj
              [(''id'', RStr ''S1M001''), (''season'', RNum 1), (''title'', RStr ''Opening match''),
               (''home'', RObj [(''code'', RStr ''hom''), (''name'', RStr ''Home''),
                                (''tender'', rawPlayer ''Ada'' ''tender''),
                                (''field'', RArr homeField)]),
               (''away'', RObj [(''code'', RStr ''AWY''), (''name'', RStr ''Away''),
                                (''tender'', rawPlayer ''Fay'' ''tender''),
                                (''field'', RArr [rawPlayer ''Gus'' ''defender'',
                                                  rawPlayer ''Hal'' ''midfielder'',
                                                  rawPlayer ''Ida'' ''midfielder'',
                                                  rawPlayer ''Jo'' ''forward''])]),
               (''officials'', RObj [(''referee'', rawOfficial ''Rex'' ''v1''),
                                     (''pbp'', rawOfficial ''Pat'' ''v2''),
                                     (''color'', rawOfficial ''Col'' ''v3'')])]),
           (''events'', RArr evs)]"

definition rawKickoff :: raw where
  "rawKickoff = RObj [(''minute'', RNum 0), (''type'', RStr ''whistle''), (''actor'', RStr ''Rex''),
                      (''reason'', RStr ''kickoff'')]"

definition rawBarePass :: raw where
  "rawBarePass = RObj [(''minute'', RNum 1), (''type'', RStr ''pass'')]"

text \<open>An upper-casing for the sample: the ASCII letters, which are all its codes hold.\<close>

definition asciiUpperCase :: "string \<Rightarrow> string" where
  "asciiUpperCase s =
     map (\<lambda>c. case map_of (zip ''abcdefghijklmnopqrstuvwxyz'' ''ABCDEFGHIJKLMNOPQRSTUVWXYZ'') c of
                 None \<Rightarrow> c | Some u \<Rightarrow> u) s"

definition sampleErrorMap :: "ZodIssueCode \<Rightarrow> string" where
  "sampleErrorMap c = ''Invalid input''"

section \<open>Evaluation of the sample match\<close>

lemmas fixture_defs =
  blankEvent_def samplePlayer_def sampleMeta_def kickoffEvent_def passEvent_def actorEvent_def
  sampleScript_def

lemmas engine_defs =
  run_def initializeState_def defaultPositions_def fieldPositionsOf_def newPlayerState_def
  applyEvent_def applyWhistle_def giveBallTo_def giveBall_def clearHolder_def deadAtCenter_def
  setPeriod_def applyMove_def applyExit_def applyCard_def applyGoal_def
  advanceClock_def derivePeriod_def initialClock_def center_def

lemmas zod_defs =
  safeParse_def MatchScriptSchema_def MatchMetaSchema_def OfficialsSchema_def OfficialSchema_def
  TeamSchema_def PlayerSchema_def PositionRoleSchema_def VoiceSchema_def MatchEventSchema_def
  zNonNegative_def zPositiveInt_def zUnion_def CardTypeSchema_def WhistleReason_def
  EventTypeSchema_def PitchPositionSchema_def matchIdFormat_def zRegex_def zTransform_def
  zStringLength_def atKey_def zObject_def zArray_def exactLengthIssue_def zOptional_def
  zEnum_def joinValues_def zRange_def zPositive_def zMax_def zMin_def zNumber_def zString_def ap_def issuesOf_def
  invalidType_def issue_def makeIssue_def getParsedType_def propOf_def asciiUpperCase_def isDigit_def

lemmas document_defs =
  rawPlayer_def rawOfficial_def rawHomeField_def sampleDocument_def rawKickoff_def
  rawBarePass_def sampleErrorMap_def

lemmas validator_defs =
  validateScript_def semanticChecks_def identityCheck_def addField_def addName_def
  formationCheck_def formationError_def bookendWarnings_def eventErrors_def unknownName_def
  eventError_def passMissingFrom_def passMissingTo_def schemaError_def joinPath_def
  minuteWarning_def numberToString_def digitChar_def sq_def dq_def truthy_def

lemma sampleDocument_parsed:
  "safeParse sampleErrorMap asciiUpperCase (sampleDocument rawHomeField [rawKickoff, rawBarePass]) =
     Inr (sampleScript ''Ada'' [kickoffEvent, (blankEvent t_pass)\<lparr>MatchEvent.minute := 1\<rparr>])"
  by (simp add: zod_defs document_defs fixture_defs enumerate_eq_zip)

section \<open>Clock: period derivation\<close>

lemma derivePeriod_twice:
  "derivePeriod m (derivePeriod m p) = derivePeriod m p \<longleftrightarrow> p \<noteq> halftime \<or> 45 < m"
  by (cases p) (auto simp: derivePeriod_def)

text \<open>
  C1, as stated, fails: from a clock in the halftime period, minute 10 gives second_half
  on the first call and first_half on the second.
\<close>

theorem advanceClock_not_idempotent:
  "period (advanceClock (advanceClock \<lparr>ClockState.minute = 45, ClockState.added = 0,
       period = halftime\<rparr> 10 None) 10 None)
   \<noteq> period (advanceClock \<lparr>ClockState.minute = 45, ClockState.added = 0,
       period = halftime\<rparr> 10 None)"
  by (simp add: advanceClock_def derivePeriod_def)

text \<open>
  C1 (amended): for every clock state, minute and added value, a second call of
  advanceClock with the same minute yields the same period as the first call exactly
  when the state is not in the halftime period or the minute is greater than 45; the
  minute and added fields are the same after one call and after two.
\<close>

theorem advanceClock_twice:
  "(period (advanceClock (advanceClock s m a) m a) = period (advanceClock s m a)
      \<longleftrightarrow> period s \<noteq> halftime \<or> 45 < m)
   \<and> ClockState.minute (advanceClock (advanceClock s m a) m a) =
       ClockState.minute (advanceClock s m a)
   \<and> ClockState.added (advanceClock (advanceClock s m a) m a) =
       ClockState.added (advanceClock s m a)"
  by (simp add: advanceClock_def derivePeriod_twice)

theorem advanceClock_twice_witness:
  "period (advanceClock (advanceClock initialClock 10 (Some 2)) 10 (Some 2)) =
     period (advanceClock initialClock 10 (Some 2))
   \<and> period initialClock = pre"
  using advanceClock_twice [of initialClock 10 "Some 2"]
  by (simp add: initialClock_def)

section \<open>Engine: the effect of one event\<close>



text \<open>
  The initialized state: no possession flag is set and the home tender is a registered
  player.
\<close>

lemma setFieldPlayers_unflagged:
  "\<forall>n p. m n = Some p \<longrightarrow> \<not> hasBall p \<Longrightarrow>
   \<forall>n p. setFieldPlayers t fp i ps m n = Some p \<longrightarrow> \<not> hasBall p"
proof (induction ps arbitrary: i m)
  case Nil
  then show ?case by simp
next
  case (Cons q ps)
  have "\<forall>n p. (m(Player.name q \<mapsto> newPlayerState q t (at_index fp i))) n = Some p
          \<longrightarrow> \<not> hasBall p"
    using Cons.prems by (auto simp: newPlayerState_def)
  then show ?case
    unfolding setFieldPlayers.simps by (rule Cons.IH)
qed

lemma setFieldPlayers_keeps: "m n \<noteq> None \<Longrightarrow> setFieldPlayers t fp i ps m n \<noteq> None"
  by (induction ps arbitrary: i m) auto

lemma initializeState_unflagged:
  "\<forall>n p. players (initializeState script) n = Some p \<longrightarrow> \<not> hasBall p"
proof -
  have u: "\<forall>n p. (m(k \<mapsto> newPlayerState q t pos)) n = Some p \<longrightarrow> \<not> hasBall p"
    if "\<forall>n p. m n = Some p \<longrightarrow> \<not> hasBall p" for m k q t pos
    using that by (auto simp: newPlayerState_def)
  have e: "\<forall>n p. (Map.empty :: string \<rightharpoonup> PlayerState) n = Some p \<longrightarrow> \<not> hasBall p"
    by simp
  show ?thesis
    unfolding initializeState_def Let_def MatchState.simps
    by (intro setFieldPlayers_unflagged u e)
qed

lemma initializeState_home_tender:
  "players (initializeState script)
     (Player.name (Team.tender (MatchMeta.home (match script)))) \<noteq> None"
proof -
  let ?n = "Player.name (Team.tender (MatchMeta.home (match script)))"
  have k: "(m(k \<mapsto> v)) ?n \<noteq> None" if "m ?n \<noteq> None"
    for m :: "string \<rightharpoonup> PlayerState" and k v
    using that by simp
  have b: "(m(?n \<mapsto> v)) ?n \<noteq> None" for m :: "string \<rightharpoonup> PlayerState" and v
    by simp
  show ?thesis
    unfolding initializeState_def Let_def MatchState.simps
    by (rule setFieldPlayers_keeps, rule k, rule setFieldPlayers_keeps, rule b)
qed













text \<open>
  C5, as stated, fails for a player whose name is the empty string (the schema admits
  it): \<open>if (event.actor)\<close> treats the empty name as no actor, so the goal changes nothing.
\<close>

theorem goal_empty_name_ignored:
  "(case run (sampleScript [] [kickoffEvent]) of
      Inl _ \<Rightarrow> False
    | Inr s \<Rightarrow>
        map_option team (players s []) = Some home_side
        \<and> Score.home (score (applyEvent s (actorEvent t_goal []))) = Score.home (score s)
        \<and> dead (ball (applyEvent s (actorEvent t_goal []))) = False
        \<and> holder (ball (applyEvent s (actorEvent t_goal []))) = Some [])"
  by (simp add: fixture_defs engine_defs runLoop.simps Let_def)

text \<open>
  C5 (amended): for every runtime state and every goal event whose actor is a non-empty
  name that resolves to a player, the scorer's side gains exactly one goal (home for a
  home-side player, away for an away-side player) while the other side's count is
  unchanged, and the ball is dead, without holder, at the centre (x = 0, y = 0).
\<close>

theorem goal_scores:
  assumes "type e = t_goal" "actor e = Some a" "a \<noteq> []" "players s a = Some ps"
  shows "(team ps = home_side \<longrightarrow>
            Score.home (score (applyEvent s e)) = Score.home (score s) + 1
            \<and> Score.away (score (applyEvent s e)) = Score.away (score s))
    \<and> (team ps = away_side \<longrightarrow>
            Score.away (score (applyEvent s e)) = Score.away (score s) + 1
            \<and> Score.home (score (applyEvent s e)) = Score.home (score s))
    \<and> dead (ball (applyEvent s e)) = True
    \<and> holder (ball (applyEvent s e)) = None
    \<and> BallState.position (ball (applyEvent s e)) = Some \<lparr>x = 0, y = 0\<rparr>"
  using assms by (simp add: applyEvent_def applyGoal_def deadAtCenter_def center_def)

theorem goal_scores_witness:
  "score (applyEvent (initializeState (sampleScript ''Ada'' [])) (actorEvent t_goal ''Eli'')) =
     \<lparr> Score.home = 1, Score.away = 0 \<rparr>
   \<and> score (applyEvent (initializeState (sampleScript ''Ada'' [])) (actorEvent t_goal ''Jo'')) =
     \<lparr> Score.home = 0, Score.away = 1 \<rparr>
   \<and> dead (ball (applyEvent (initializeState (sampleScript ''Ada'' [])) (actorEvent t_goal ''Eli'')))"
proof -
  let ?s = "initializeState (sampleScript ''Ada'' [])"
  have h: "players ?s ''Eli'' =
      Some (newPlayerState (samplePlayer ''Eli'' forward_role) home_side (Some \<lparr>x = - 5, y = 0\<rparr>))"
    by (simp add: fixture_defs initializeState_def defaultPositions_def fieldPositionsOf_def
          newPlayerState_def Let_def)
  have a: "players ?s ''Jo'' =
      Some (newPlayerState (samplePlayer ''Jo'' forward_role) away_side (Some \<lparr>x = 5, y = 0\<rparr>))"
    by (simp add: fixture_defs initializeState_def defaultPositions_def fieldPositionsOf_def
          newPlayerState_def Let_def)
  have z: "score ?s = \<lparr> Score.home = 0, Score.away = 0 \<rparr>"
    by (simp add: initializeState_def Let_def)
  from goal_scores [OF _ _ _ h, of "actorEvent t_goal ''Eli''"]
    goal_scores [OF _ _ _ a, of "actorEvent t_goal ''Jo''"] z
  show ?thesis
    by (simp add: actorEvent_def blankEvent_def newPlayerState_def Score.equality)
qed

text \<open>
  C6: after a whistle with reason kickoff the ball is live, its holder is the home tender,
  the tender's possession flag is set and every other player's flag is cleared.  The code
  breaks the last part in a state the engine reaches: after kickoff, a pass from Ada to
  Bea and a goal by Bea, Bea still carries the possession flag, because the goal case
  clears \<open>ball.holder\<close> but not the holder's flag (the defect of C9); the next kickoff
  gives the ball to Ada and leaves Bea's flag set.
\<close>

theorem kickoff_stale_flag:
  "(case run (sampleScript ''Ada''
               [kickoffEvent, passEvent ''Ada'' ''Bea'', actorEvent t_goal ''Bea'']) of
      Inl _ \<Rightarrow> False
    | Inr s \<Rightarrow>
        holder (ball (applyEvent s kickoffEvent)) = Some ''Ada''
        \<and> map_option hasBall (players (applyEvent s kickoffEvent) ''Ada'') = Some True
        \<and> map_option hasBall (players (applyEvent s kickoffEvent) ''Bea'') = Some True)"
  by (simp add: fixture_defs engine_defs runLoop.simps Let_def)

text \<open>
  What the kickoff does once the possession flags agree with the ball: when the home
  tender is a registered player the ball becomes live, held by the tender whose flag is
  set; every other player's flag is cleared afterwards, provided that before the event
  every other player whose flag is set is the recorded ball holder, with a non-empty name.
\<close>

theorem kickoff_gives_ball:
  assumes "type e = t_whistle" "reason e = Some ''kickoff''"
    "players s (Player.name (Team.tender (MatchMeta.home (meta s)))) = Some pt"
  shows "dead (ball (applyEvent s e)) = False
    \<and> holder (ball (applyEvent s e)) = Some (Player.name (Team.tender (MatchMeta.home (meta s))))
    \<and> map_option hasBall
         (players (applyEvent s e) (Player.name (Team.tender (MatchMeta.home (meta s))))) = Some True
    \<and> ((\<forall>n p. players s n = Some p \<and> hasBall p
               \<and> n \<noteq> Player.name (Team.tender (MatchMeta.home (meta s)))
            \<longrightarrow> n \<noteq> [] \<and> holder (ball s) = Some n)
         \<longrightarrow> (\<forall>n p. n \<noteq> Player.name (Team.tender (MatchMeta.home (meta s)))
                    \<and> players (applyEvent s e) n = Some p
               \<longrightarrow> \<not> hasBall p))"
  using assms
  by (auto simp: applyEvent_def applyWhistle_def giveBall_def clearHolder_def Let_def setPeriod_def
           split: option.splits if_splits)

theorem kickoff_gives_ball_witness:
  "holder (ball (applyEvent (applyEvent (initializeState (sampleScript ''Ada'' [])) kickoffEvent)
                   (passEvent ''Ada'' ''Bea''))) = Some ''Bea''
   \<and> map_option hasBall
        (players (applyEvent (applyEvent (initializeState (sampleScript ''Ada'' [])) kickoffEvent)
                    (passEvent ''Ada'' ''Bea'')) ''Bea'') = Some True
   \<and> dead (ball (applyEvent
        (applyEvent (applyEvent (initializeState (sampleScript ''Ada'' [])) kickoffEvent)
           (passEvent ''Ada'' ''Bea'')) kickoffEvent)) = False
   \<and> holder (ball (applyEvent
        (applyEvent (applyEvent (initializeState (sampleScript ''Ada'' [])) kickoffEvent)
           (passEvent ''Ada'' ''Bea'')) kickoffEvent)) = Some ''Ada''
   \<and> map_option hasBall (players (applyEvent
        (applyEvent (applyEvent (initializeState (sampleScript ''Ada'' [])) kickoffEvent)
           (passEvent ''Ada'' ''Bea'')) kickoffEvent) ''Ada'') = Some True
   \<and> map_option hasBall (players (applyEvent
        (applyEvent (applyEvent (initializeState (sampleScript ''Ada'' [])) kickoffEvent)
           (passEvent ''Ada'' ''Bea'')) kickoffEvent) ''Bea'') \<noteq> Some True"
proof -
  define s where "s = applyEvent (applyEvent (initializeState (sampleScript ''Ada'' [])) kickoffEvent)
                        (passEvent ''Ada'' ''Bea'')"
  define s' where "s' = applyEvent s kickoffEvent"
  have n: "Player.name (Team.tender (MatchMeta.home (meta s))) = ''Ada''"
    unfolding s_def by (simp add: fixture_defs engine_defs Let_def)
  have h: "holder (ball s) = Some ''Bea''"
    unfolding s_def by (simp add: fixture_defs engine_defs Let_def)
  have b: "map_option hasBall (players s ''Bea'') = Some True"
    unfolding s_def by (simp add: fixture_defs engine_defs Let_def)
  have a: "players s ''Ada'' \<noteq> None"
    unfolding s_def by (simp add: fixture_defs engine_defs Let_def)
  have f: "\<forall>n p. players s n = Some p \<and> hasBall p \<longrightarrow> n = ''Bea''"
    unfolding s_def by (simp add: fixture_defs engine_defs Let_def)
  from a obtain pt where pt: "players s (Player.name (Team.tender (MatchMeta.home (meta s)))) = Some pt"
    unfolding n by (rule not_None_eq [THEN iffD1, THEN exE])
  have u: "\<forall>n p. players s n = Some p \<and> hasBall p
             \<and> n \<noteq> Player.name (Team.tender (MatchMeta.home (meta s)))
        \<longrightarrow> n \<noteq> [] \<and> holder (ball s) = Some n"
  proof (intro allI impI)
    fix n p
    assume "players s n = Some p \<and> hasBall p
             \<and> n \<noteq> Player.name (Team.tender (MatchMeta.home (meta s)))"
    with f [rule_format, of n p] have "n = ''Bea''" by simp
    with h show "n \<noteq> [] \<and> holder (ball s) = Some n" by simp
  qed
  have k: "type kickoffEvent = t_whistle" "reason kickoffEvent = Some ''kickoff''"
    by (simp_all add: kickoffEvent_def blankEvent_def)
  have c: "dead (ball s') = False \<and> holder (ball s') = Some ''Ada''
    \<and> map_option hasBall (players s' ''Ada'') = Some True
    \<and> ((\<forall>n p. players s n = Some p \<and> hasBall p \<and> n \<noteq> ''Ada''
            \<longrightarrow> n \<noteq> [] \<and> holder (ball s) = Some n)
         \<longrightarrow> (\<forall>n p. n \<noteq> ''Ada'' \<and> players s' n = Some p \<longrightarrow> \<not> hasBall p))"
    using kickoff_gives_ball [OF k pt] unfolding n s'_def .
  then have "(\<forall>n p. players s n = Some p \<and> hasBall p \<and> n \<noteq> ''Ada''
            \<longrightarrow> n \<noteq> [] \<and> holder (ball s) = Some n)
         \<longrightarrow> (\<forall>n p. n \<noteq> ''Ada'' \<and> players s' n = Some p \<longrightarrow> \<not> hasBall p)"
    by (elim conjE)
  from this u [unfolded n]
  have v: "\<forall>n p. n \<noteq> ''Ada'' \<and> players s' n = Some p \<longrightarrow> \<not> hasBall p"
    by (rule mp)
  from c v have t: "dead (ball s') = False \<and> holder (ball s') = Some ''Ada''
    \<and> map_option hasBall (players s' ''Ada'') = Some True
    \<and> (\<forall>n p. n \<noteq> ''Ada'' \<and> players s' n = Some p \<longrightarrow> \<not> hasBall p)"
    by (elim conjE, intro conjI)
  from t have q: "\<forall>n p. n \<noteq> ''Ada'' \<and> players s' n = Some p \<longrightarrow> \<not> hasBall p"
    by (elim conjE)
  have "\<not> hasBall p" if "players s' ''Bea'' = Some p" for p
    using q [rule_format, of "''Bea''" p] that by simp
  then have "map_option hasBall (players s' ''Bea'') \<noteq> Some True"
    by (cases "players s' ''Bea''") auto
  with t h b show ?thesis
    unfolding s'_def s_def by (elim conjE, intro conjI)
qed

text \<open>
  C7: an exit of the ball holder sets the ball dead, clears the holder, the player's
  possession flag and on-pitch flag; an exit of a known non-holder only clears the
  on-pitch flag.  The code breaks both parts in states the engine reaches, where flag and
  holder disagree.  After kickoff, a dead ball and a pass to Bea, the ball holder is Bea
  while Ada still carries the possession flag (dead_ball clears \<open>ball.holder\<close> but no
  flag, the defect of C9): the exit of Ada, a known non-holder, makes the ball dead and
  clears its holder.  After kickoff and a pass to the referee (a name the validator
  knows, but no player) \<open>giveBall\<close> has cleared Ada's flag and kept Ada as the holder: the
  exit of Ada, the ball holder, leaves the ball live and held by Ada.
\<close>

theorem exit_stale_flag:
  "(case run (sampleScript ''Ada''
               [kickoffEvent, blankEvent t_dead_ball, passEvent ''Ada'' ''Bea'']) of
      Inl _ \<Rightarrow> False
    | Inr s \<Rightarrow>
        holder (ball s) = Some ''Bea'' \<and> dead (ball s) = False
        \<and> holder (ball (applyEvent s (actorEvent t_exit ''Ada''))) = None
        \<and> dead (ball (applyEvent s (actorEvent t_exit ''Ada''))) = True)
   \<and> (case run (sampleScript ''Ada'' [kickoffEvent, passEvent ''Ada'' ''Rex'']) of
      Inl _ \<Rightarrow> False
    | Inr s \<Rightarrow>
        holder (ball s) = Some ''Ada''
        \<and> holder (ball (applyEvent s (actorEvent t_exit ''Ada''))) = Some ''Ada''
        \<and> dead (ball (applyEvent s (actorEvent t_exit ''Ada''))) = False)"
  by (simp add: fixture_defs engine_defs runLoop.simps Let_def)

text \<open>
  What the exit does once the player's possession flag agrees with the ball (the flag is
  set exactly when \<open>ball.holder\<close> is the player's name), for a non-empty name of a known
  player: the state changes as C7 says, and in nothing else.
\<close>

theorem exit_effects:
  assumes "type e = t_exit" "actor e = Some a" "a \<noteq> []" "players s a = Some ps"
    "hasBall ps \<longleftrightarrow> holder (ball s) = Some a"
  shows "applyEvent s e =
    (if holder (ball s) = Some a
     then s\<lparr> players := (players s)(a \<mapsto> ps\<lparr>onPitch := False, hasBall := False\<rparr>),
             ball := (ball s)\<lparr>dead := True, holder := None\<rparr> \<rparr>
     else s\<lparr> players := (players s)(a \<mapsto> ps\<lparr>onPitch := False\<rparr>) \<rparr>)"
  using assms by (simp add: applyEvent_def applyExit_def)

theorem exit_effects_witness:
  "holder (ball (applyEvent (initializeState (sampleScript ''Ada'' [])) kickoffEvent)) = Some ''Ada''
   \<and> ball (applyEvent (applyEvent (initializeState (sampleScript ''Ada'' [])) kickoffEvent)
             (actorEvent t_exit ''Ada'')) =
       \<lparr> holder = None, BallState.position = Some \<lparr>x = - 46, y = 0\<rparr>, dead = True \<rparr>
   \<and> map_option (\<lambda>p. (hasBall p, onPitch p))
        (players (applyEvent (applyEvent (initializeState (sampleScript ''Ada'' [])) kickoffEvent)
                    (actorEvent t_exit ''Ada'')) ''Ada'') = Some (False, False)
   \<and> ball (applyEvent (applyEvent (initializeState (sampleScript ''Ada'' [])) kickoffEvent)
             (actorEvent t_exit ''Bea'')) =
       ball (applyEvent (initializeState (sampleScript ''Ada'' [])) kickoffEvent)
   \<and> map_option (\<lambda>p. (hasBall p, onPitch p))
        (players (applyEvent (applyEvent (initializeState (sampleScript ''Ada'' [])) kickoffEvent)
                    (actorEvent t_exit ''Bea'')) ''Bea'') = Some (False, False)"
proof -
  let ?s = "applyEvent (initializeState (sampleScript ''Ada'' [])) kickoffEvent"
  let ?a = "(newPlayerState (samplePlayer ''Ada'' tender_role) home_side
               (Some \<lparr>x = - 46, y = 0\<rparr>))\<lparr>hasBall := True\<rparr>"
  let ?b = "newPlayerState (samplePlayer ''Bea'' defender_role) home_side (Some \<lparr>x = - 30, y = 0\<rparr>)"
  have b: "ball ?s = \<lparr> holder = Some ''Ada'', BallState.position = Some \<lparr>x = - 46, y = 0\<rparr>,
                       dead = False \<rparr>"
    by (simp add: fixture_defs engine_defs Let_def)
  have pa: "players ?s ''Ada'' = Some ?a"
    by (simp add: fixture_defs engine_defs Let_def)
  have pb: "players ?s ''Bea'' = Some ?b"
    by (simp add: fixture_defs engine_defs Let_def)
  have ea: "applyEvent ?s (actorEvent t_exit ''Ada'') =
      ?s\<lparr> players := (players ?s)(''Ada'' \<mapsto> ?a\<lparr>onPitch := False, hasBall := False\<rparr>),
           ball := (ball ?s)\<lparr>dead := True, holder := None\<rparr> \<rparr>"
    using exit_effects [OF _ _ _ pa, of "actorEvent t_exit ''Ada''"] b
    by (simp add: actorEvent_def blankEvent_def newPlayerState_def)
  have eb: "applyEvent ?s (actorEvent t_exit ''Bea'') =
      ?s\<lparr> players := (players ?s)(''Bea'' \<mapsto> ?b\<lparr>onPitch := False\<rparr>) \<rparr>"
    using exit_effects [OF _ _ _ pb, of "actorEvent t_exit ''Bea''"] b
    by (simp add: actorEvent_def blankEvent_def newPlayerState_def)
  show ?thesis
    unfolding ea eb using b by (simp add: newPlayerState_def)
qed

text \<open>
  C9: the code breaks the invariant.  The replay of kickoff, pass from Ada to Bea, goal
  by Bea and a second kickoff (a script the validator accepts) ends with the possession
  flag set for both Ada and Bea; after the first three events no ball holder is recorded
  although Bea's flag is set.
\<close>

theorem possession_not_exclusive:
  "(case run (sampleScript ''Ada''
               [kickoffEvent, passEvent ''Ada'' ''Bea'', actorEvent t_goal ''Bea'',
                kickoffEvent\<lparr>MatchEvent.minute := 3\<rparr>]) of
      Inl _ \<Rightarrow> False
    | Inr s \<Rightarrow>
        map_option hasBall (players s ''Ada'') = Some True
        \<and> map_option hasBall (players s ''Bea'') = Some True
        \<and> holder (ball s) = Some ''Ada'')
   \<and> (case run (sampleScript ''Ada''
               [kickoffEvent, passEvent ''Ada'' ''Bea'', actorEvent t_goal ''Bea'']) of
      Inl _ \<Rightarrow> False
    | Inr s \<Rightarrow>
        map_option hasBall (players s ''Bea'') = Some True \<and> holder (ball s) = None)
   \<and> (case semanticChecks (sampleScript ''Ada''
               [kickoffEvent, passEvent ''Ada'' ''Bea'', actorEvent t_goal ''Bea'',
                kickoffEvent\<lparr>MatchEvent.minute := 3\<rparr>]) of
      Inl _ \<Rightarrow> False
    | Inr r \<Rightarrow> valid r \<and> errors r = [])"
  by (simp add: fixture_defs engine_defs validator_defs runLoop.simps minuteLoop.simps
        eventLoop.simps Let_def)

text \<open>
  C10: for every runtime state, a goal event without actor leaves the whole state
  unchanged.
\<close>

theorem goal_without_actor:
  "type e = t_goal \<Longrightarrow> actor e = None \<Longrightarrow> applyEvent s e = s"
  by (simp add: applyEvent_def applyGoal_def)

theorem goal_without_actor_witness:
  "type (blankEvent t_goal) = t_goal \<and> actor (blankEvent t_goal) = None
   \<and> applyEvent (initializeState (sampleScript ''Ada'' [])) (blankEvent t_goal) =
       initializeState (sampleScript ''Ada'' [])"
  using goal_without_actor [of "blankEvent t_goal" "initializeState (sampleScript ''Ada'' [])"]
  by (simp add: blankEvent_def)

section \<open>Validator: strings\<close>


lemma digitChar_isDigit: "d < 10 \<Longrightarrow> isDigit (digitChar d)"
  by (auto simp: digitChar_def isDigit_def less_Suc_eq numeral_eq_Suc)

lemma digitChar_inj: "a < 10 \<Longrightarrow> b < 10 \<Longrightarrow> digitChar a = digitChar b \<Longrightarrow> a = b"
  by (auto simp: digitChar_def less_Suc_eq numeral_eq_Suc)

lemma natToString_digits: "list_all isDigit (natToString n)"
proof (induction n rule: natToString.induct)
  case (1 n)
  show ?case
  proof (cases "n < 10")
    case True
    then show ?thesis by (simp add: natToString.simps [of n] digitChar_isDigit)
  next
    case False
    then show ?thesis using 1 by (simp add: natToString.simps [of n] digitChar_isDigit)
  qed
qed

lemma natToString_nonempty: "natToString n \<noteq> []"
  by (subst natToString.simps) simp

lemma natToString_inj: "natToString a = natToString b \<Longrightarrow> a = b"
proof (induction a arbitrary: b rule: natToString.induct)
  case (1 n)
  show ?case
  proof (cases "n < 10")
    case small: True
    show ?thesis
    proof (cases "b < 10")
      case True
      with small 1(2) show ?thesis
        by (simp add: natToString.simps [of n] natToString.simps [of b] digitChar_inj)
    next
      case False
      with small 1(2) natToString_nonempty [of "b div 10"] show ?thesis
        by (auto simp: natToString.simps [of n] natToString.simps [of b])
    qed
  next
    case big: False
    show ?thesis
    proof (cases "b < 10")
      case True
      with big 1(2) natToString_nonempty [of "n div 10"] show ?thesis
        by (auto simp: natToString.simps [of n] natToString.simps [of b])
    next
      case False
      with big 1(2) have "natToString (n div 10) = natToString (b div 10)"
        and d: "digitChar (n mod 10) = digitChar (b mod 10)"
        by (simp_all add: natToString.simps [of n] natToString.simps [of b])
      with 1(1) big have "n div 10 = b div 10" by simp
      moreover from d have "n mod 10 = b mod 10" by (simp add: digitChar_inj)
      ultimately show ?thesis by (metis div_mult_mod_eq)
    qed
  qed
qed

lemma digits_split:
  "list_all isDigit ds \<Longrightarrow> list_all isDigit es \<Longrightarrow> \<not> isDigit c \<Longrightarrow>
   ds @ c # r = es @ c # r' \<Longrightarrow> ds = es \<and> r = r'"
proof (induction ds arbitrary: es)
  case Nil
  then show ?case by (cases es) auto
next
  case (Cons d ds)
  then show ?case by (cases es) auto
qed

lemma eventError_eq: "eventError i a = eventError j b \<longleftrightarrow> i = j \<and> a = b"
proof
  assume "eventError i a = eventError j b"
  then have "natToString i @ CHR '':'' # (CHR '' '' # a) = natToString j @ CHR '':'' # (CHR '' '' # b)"
    by (simp add: eventError_def)
  then have "natToString i = natToString j \<and> CHR '' '' # a = CHR '' '' # b"
    by (rule digits_split [OF natToString_digits natToString_digits, rotated]) (simp add: isDigit_def)
  then show "i = j \<and> a = b" by (simp add: natToString_inj)
qed simp

lemma at_index_nth: "i < length xs \<Longrightarrow> at_index xs i = Some (xs ! i)"
  by (induction xs i rule: at_index.induct) auto

lemma minuteLoop_returns: "0 < i \<Longrightarrow> \<exists>w. minuteLoop evs i warns = Inr w"
proof (induction evs i warns rule: minuteLoop.induct)
  case (1 evs i warns)
  show ?case
  proof (cases "i < length evs")
    case True
    with 1(2) have a: "at_index evs i = Some (evs ! i)" "at_index evs (i - 1) = Some (evs ! (i - 1))"
      by (simp_all add: at_index_nth)
    from 1(2) have "i \<noteq> 0" by simp
    with 1(1) [OF True, of "Some (evs ! i)" "Some (evs ! (i - 1))" "evs ! i" "evs ! (i - 1)"] a True
    show ?thesis
      by (subst minuteLoop.simps) (auto split: if_splits)
  next
    case False
    then show ?thesis by (subst minuteLoop.simps) simp
  qed
qed

lemma eventLoop_eq:
  "eventLoop k evs i errs =
     Inr (errs @ concat (map (\<lambda>j. eventErrors k j (evs ! j)) [i..<length evs]))"
proof (induction k evs i errs rule: eventLoop.induct)
  case (1 k evs i errs)
  show ?case
  proof (cases "i < length evs")
    case True
    then have a: "at_index evs i = Some (evs ! i)" by (simp add: at_index_nth)
    from 1 [OF True a] True a show ?thesis
      by (subst eventLoop.simps) (simp add: upt_conv_Cons)
  next
    case False
    then show ?thesis by (subst eventLoop.simps) simp
  qed
qed

lemma bookendWarnings_returns: "\<exists>w. bookendWarnings evs warns = Inr w"
  by (cases evs) (auto simp: bookendWarnings_def at_index_nth split: option.splits)

section \<open>Validator: the schema\<close>


subsection \<open>Issues of the schema combinators\<close>

lemma issuesOf_simps [simp]: "issuesOf (Inr a) = []" "issuesOf (Inl ds) = ds"
  by (simp_all add: issuesOf_def)

lemma issuesOf_ap: "issuesOf (ap rf rx) = issuesOf rf @ issuesOf rx"
  by (simp add: ap_def split: sum.splits)

lemma ap_Inr_iff: "ap rf rx = Inr b \<longleftrightarrow> (\<exists>f a. rf = Inr f \<and> rx = Inr a \<and> b = f a)"
  by (auto simp: ap_def split: sum.splits)

lemma ap_nonempty: "rf \<noteq> Inl [] \<Longrightarrow> rx \<noteq> Inl [] \<Longrightarrow> ap rf rx \<noteq> Inl []"
  by (auto simp: ap_def split: sum.splits)

lemma sequence_nonempty: "(\<And>r. r \<in> set rs \<Longrightarrow> r \<noteq> Inl []) \<Longrightarrow> sequence rs \<noteq> Inl []"
  by (induction rs) (simp_all add: ap_nonempty)

lemma sequence_length: "sequence rs = Inr ys \<Longrightarrow> length ys = length rs"
  by (induction rs arbitrary: ys) (auto simp: ap_Inr_iff)

lemma issue_nonempty: "issue c p \<noteq> Inl []"
  by (simp add: issue_def)

lemma invalidType_nonempty: "invalidType e p v \<noteq> Inl []"
  by (simp add: invalidType_def issue_def)

named_theorems nonempty

lemma zString_nonempty [nonempty]: "zString p v \<noteq> Inl []"
  by (simp add: zString_def invalidType_nonempty split: raw.splits)

lemma zNumber_nonempty [nonempty]: "zNumber p v \<noteq> Inl []"
  by (simp add: zNumber_def invalidType_nonempty split: raw.splits)

lemma zRange_nonempty [nonempty]: "zRange lo hi p v \<noteq> Inl []"
  using zNumber_nonempty [of p v]
  by (auto simp: zRange_def zMin_def zMax_def ap_def issue_def split: sum.splits)

lemma zNonNegative_nonempty [nonempty]: "zNonNegative p v \<noteq> Inl []"
  using zNumber_nonempty [of p v]
  by (auto simp: zNonNegative_def zMin_def ap_def issue_def split: sum.splits)

lemma zPositiveInt_nonempty [nonempty]: "zPositiveInt p v \<noteq> Inl []"
  using zNumber_nonempty [of p v]
  by (auto simp: zPositiveInt_def zPositive_def ap_def issue_def split: sum.splits)

lemma zEnum_nonempty [nonempty]: "zEnum options p v \<noteq> Inl []"
  by (simp add: zEnum_def invalidType_nonempty issue_nonempty split: raw.splits option.splits)

lemma zRegex_nonempty [nonempty]: "zRegex m msg p v \<noteq> Inl []"
  by (simp add: zRegex_def invalidType_nonempty split: raw.splits)

lemma zStringLength_nonempty [nonempty]: "zStringLength n p v \<noteq> Inl []"
  by (simp add: zStringLength_def invalidType_nonempty issue_nonempty split: raw.splits)

lemma zUnion_nonempty [nonempty]: "zUnion a b p v \<noteq> Inl []"
  by (simp add: zUnion_def issue_nonempty split: sum.splits)

lemma zOptional_nonempty: "(\<And>p v. inner p v \<noteq> Inl []) \<Longrightarrow> zOptional inner p v \<noteq> Inl []"
  by (auto simp: zOptional_def split: raw.splits sum.splits)

lemma zTransform_nonempty: "(\<And>p v. inner p v \<noteq> Inl []) \<Longrightarrow> zTransform f inner p v \<noteq> Inl []"
  by (simp add: zTransform_def ap_nonempty)

lemma atKey_nonempty: "(\<And>p v. inner p v \<noteq> Inl []) \<Longrightarrow> atKey k inner p v \<noteq> Inl []"
  by (simp add: atKey_def)

lemma zObject_nonempty: "(\<And>p v. shape p v \<noteq> Inl []) \<Longrightarrow> zObject shape p v \<noteq> Inl []"
  by (simp add: zObject_def invalidType_nonempty split: raw.splits)

lemma zArray_nonempty:
  assumes "\<And>p v. element p v \<noteq> Inl []"
  shows "zArray element n p v \<noteq> Inl []"
proof (cases v)
  case (RArr vs)
  have s: "sequence (map (\<lambda>(i, w). element (p @ [Index i]) w) (enumerate 0 vs)) \<noteq> Inl []"
    by (rule sequence_nonempty) (use assms in auto)
  have c: "(case n of
              None \<Rightarrow> Inr ()
            | Some k \<Rightarrow>
                if k < length vs \<or> length vs < k then Inl [exactLengthIssue k (length vs) p]
                else Inr ()) \<noteq> Inl []"
    by (simp split: option.splits)
  show ?thesis
    unfolding zArray_def RArr raw.case by (intro ap_nonempty s c) simp
qed (simp_all add: zArray_def invalidType_nonempty)

lemmas schema_nonempty_intros =
  zObject_nonempty ap_nonempty atKey_nonempty zOptional_nonempty zTransform_nonempty zArray_nonempty

lemma PitchPositionSchema_nonempty [nonempty]: "PitchPositionSchema p v \<noteq> Inl []"
  unfolding PitchPositionSchema_def by (intro schema_nonempty_intros nonempty) simp

lemma PlayerSchema_nonempty [nonempty]: "PlayerSchema p v \<noteq> Inl []"
  unfolding PlayerSchema_def PositionRoleSchema_def VoiceSchema_def
  by (intro schema_nonempty_intros nonempty) simp

lemma OfficialSchema_nonempty [nonempty]: "OfficialSchema p v \<noteq> Inl []"
  unfolding OfficialSchema_def VoiceSchema_def by (intro schema_nonempty_intros nonempty) simp

lemma OfficialsSchema_nonempty [nonempty]: "OfficialsSchema p v \<noteq> Inl []"
  unfolding OfficialsSchema_def by (intro schema_nonempty_intros nonempty) simp

lemma TeamSchema_nonempty [nonempty]: "TeamSchema up p v \<noteq> Inl []"
  unfolding TeamSchema_def by (intro schema_nonempty_intros nonempty) simp

lemma MatchMetaSchema_nonempty [nonempty]: "MatchMetaSchema up p v \<noteq> Inl []"
  unfolding MatchMetaSchema_def by (intro schema_nonempty_intros nonempty) simp

lemma MatchEventSchema_nonempty [nonempty]: "MatchEventSchema p v \<noteq> Inl []"
  unfolding MatchEventSchema_def EventTypeSchema_def CardTypeSchema_def
  by (intro schema_nonempty_intros nonempty) simp

lemma MatchScriptSchema_nonempty: "MatchScriptSchema up p v \<noteq> Inl []"
  unfolding MatchScriptSchema_def by (intro schema_nonempty_intros nonempty) simp

lemma safeParse_failure: "safeParse em up v = Inl ds \<Longrightarrow> ds \<noteq> []"
  using MatchScriptSchema_nonempty [of up "[]" v] by (auto simp: safeParse_def split: sum.splits)


lemma semanticChecks_errors:
  "\<exists>r. semanticChecks script = Inr r \<and> valid r = (errors r = [])
     \<and> errors r =
         snd (identityCheck (match script)) @ formationCheck (match script) @
         (if events script = [] then [''[events] Match has no events''] else []) @
         concat (map (\<lambda>j. eventErrors (fst (identityCheck (match script)) \<union>
                                          {''referee'', ''pbp'', ''color''}) j (events script ! j))
                   [0..<length (events script)])"
proof -
  obtain w1 where w1: "minuteLoop (events script) (Suc 0) [] = Inr w1"
    using minuteLoop_returns [of "Suc 0" "events script" "[]"] by auto
  obtain w2 where w2: "bookendWarnings (events script) w1 = Inr w2"
    using bookendWarnings_returns by blast
  show ?thesis
    using w1 w2 by (auto simp: semanticChecks_def Let_def split_beta eventLoop_eq)
qed

text \<open>
  C4: for every input value (and every error map and upper-casing of the host) validateScript
  returns a result, it does not throw, and in that result the valid flag is true if and
  only if the errors list is empty, whatever the warnings are.
\<close>

theorem validateScript_result:
  "\<exists>r. validateScript em up v = Inr r \<and> (valid r \<longleftrightarrow> errors r = [])"
proof (cases "safeParse em up v")
  case (Inl ds)
  then show ?thesis using safeParse_failure [OF Inl] by (simp add: validateScript_def)
next
  case (Inr script)
  then show ?thesis using semanticChecks_errors [of script] by (auto simp: validateScript_def)
qed

subsection \<open>Counting one message\<close>

lemma count_list_append': "count_list (xs @ ys) a = count_list xs a + count_list ys a"
  by (induction xs) auto

lemma count_concat_upt:
  assumes "\<And>j. j \<noteq> i \<Longrightarrow> count_list (f j) a = 0"
  shows "count_list (concat (map f [0..<n])) a = (if i < n then count_list (f i) a else 0)"
proof (induction n)
  case 0
  show ?case by simp
next
  case (Suc n)
  show ?case
  proof (cases "n = i")
    case True
    with Suc show ?thesis by (simp add: count_list_append')
  next
    case False
    with Suc assms [of n] show ?thesis by (auto simp: count_list_append')
  qed
qed

lemma addName_tagged:
  "\<forall>e \<in> set (snd st). prefix ''[identity]'' e \<Longrightarrow>
   \<forall>e \<in> set (snd (addName st n c)). prefix ''[identity]'' e"
  by (auto simp: addName_def split_beta)

lemma addField_tagged:
  "\<forall>e \<in> set (snd st). prefix ''[identity]'' e \<Longrightarrow>
   \<forall>e \<in> set (snd (addField c st ps)). prefix ''[identity]'' e"
  unfolding addField_def
proof (induction ps arbitrary: st)
  case Nil
  then show ?case by simp
next
  case (Cons p ps)
  from Cons.IH [OF addName_tagged [OF Cons.prems]] show ?case by simp
qed

lemma identityCheck_tagged: "\<forall>e \<in> set (snd (identityCheck m)). prefix ''[identity]'' e"
  unfolding identityCheck_def Let_def
  by (intro addName_tagged addField_tagged) simp

lemma formationCheck_tagged: "\<forall>e \<in> set (formationCheck m). prefix ''[formation]'' e"
  by (auto simp: formationCheck_def formationError_def)

lemma eventErrors_tagged: "\<forall>e \<in> set (eventErrors k j ev). prefix ''[events]'' e"
  by (auto simp: eventErrors_def unknownName_def eventError_def split: option.splits)

lemma count_eventErrors_from:
  "count_list (eventErrors k j ev) (eventError i passMissingFrom) =
     (if j = i \<and> type ev = t_pass \<and> \<not> truthy (from ev) then 1 else 0)"
  by (simp add: eventErrors_def unknownName_def eventError_eq passMissingFrom_def passMissingTo_def sq_def
        split: option.splits)

lemma count_eventErrors_to:
  "count_list (eventErrors k j ev) (eventError i passMissingTo) =
     (if j = i \<and> type ev = t_pass \<and> \<not> truthy (to ev) then 1 else 0)"
  by (simp add: eventErrors_def unknownName_def eventError_eq passMissingFrom_def passMissingTo_def sq_def
        split: option.splits)

lemma count_other_errors:
  "count_list (snd (identityCheck m)) (eventError i a) = 0"
  "count_list (formationCheck m) (eventError i a) = 0"
  "count_list [''[events] Match has no events''] (eventError i a) = 0"
proof -
  have "\<not> prefix ''[identity]'' (eventError i a)" "\<not> prefix ''[formation]'' (eventError i a)"
    by (simp_all add: eventError_def)
  with identityCheck_tagged [of m] formationCheck_tagged [of m]
  show "count_list (snd (identityCheck m)) (eventError i a) = 0"
    "count_list (formationCheck m) (eventError i a) = 0"
    by (auto simp: count_list_0_iff)
  show "count_list [''[events] Match has no events''] (eventError i a) = 0"
    by (simp add: eventError_def)
qed

text \<open>
  C8: for every document that passes schema validation and every event of kind pass in it,
  at index \<open>i\<close>, validateScript returns a result whose errors hold the message
  \<open>[events] Event i: pass missing 'from'\<close> exactly once when \<open>from\<close> is missing
  (absent or empty) and not at all otherwise, and the message
  \<open>[events] Event i: pass missing 'to'\<close> exactly once when \<open>to\<close> is missing and not at
  all otherwise; the two messages differ, so an event missing both yields two errors.
\<close>

theorem pass_missing_fields:
  assumes "safeParse em up v = Inr script" "i < length (events script)"
    "type (events script ! i) = t_pass"
  shows "\<exists>r. validateScript em up v = Inr r
    \<and> count_list (errors r) (eventError i passMissingFrom) =
        (if truthy (from (events script ! i)) then 0 else 1)
    \<and> count_list (errors r) (eventError i passMissingTo) =
        (if truthy (to (events script ! i)) then 0 else 1)
    \<and> eventError i passMissingFrom \<noteq> eventError i passMissingTo"
proof -
  let ?k = "fst (identityCheck (match script)) \<union> {''referee'', ''pbp'', ''color''}"
  let ?f = "\<lambda>j. eventErrors ?k j (events script ! j)"
  obtain r where r: "semanticChecks script = Inr r"
    and e: "errors r = snd (identityCheck (match script)) @ formationCheck (match script) @
         (if events script = [] then [''[events] Match has no events''] else []) @
         concat (map ?f [0..<length (events script)])"
    using semanticChecks_errors [of script] by blast
  have a: "count_list (concat (map ?f [0..<length (events script)]))
             (eventError i passMissingFrom) =
           (if truthy (from (events script ! i)) then 0 else 1)"
    using assms(2,3)
    by (subst count_concat_upt [where i = i]) (simp_all add: count_eventErrors_from)
  have b: "count_list (concat (map ?f [0..<length (events script)]))
             (eventError i passMissingTo) =
           (if truthy (to (events script ! i)) then 0 else 1)"
    using assms(2,3)
    by (subst count_concat_upt [where i = i]) (simp_all add: count_eventErrors_to)
  have ne: "events script \<noteq> []" using assms(2) by auto
  have "validateScript em up v = Inr r" using assms(1) r by (simp add: validateScript_def)
  moreover have "count_list (errors r) (eventError i passMissingFrom) =
        (if truthy (from (events script ! i)) then 0 else 1)"
    unfolding e by (simp only: count_list_append' count_other_errors a ne if_False) simp
  moreover have "count_list (errors r) (eventError i passMissingTo) =
        (if truthy (to (events script ! i)) then 0 else 1)"
    unfolding e by (simp only: count_list_append' count_other_errors b ne if_False) simp
  moreover have "eventError i passMissingFrom \<noteq> eventError i passMissingTo"
    by (simp add: eventError_eq passMissingFrom_def passMissingTo_def)
  ultimately show ?thesis by blast
qed


subsection \<open>Field lists and the schema\<close>

lemma propOf_defined: "propOf v k \<noteq> RUndefined \<Longrightarrow> \<exists>kvs. v = RObj kvs"
  by (cases v) (simp_all add: propOf_def)

lemma zArray_exact: "zArray element (Some n) p v = Inr ys \<Longrightarrow> length ys = n"
  by (cases v)
     (auto simp: zArray_def invalidType_def issue_def ap_Inr_iff split: if_splits
           dest!: sequence_length)

lemma TeamSchema_field: "TeamSchema up p v = Inr t \<Longrightarrow> length (field t) = 4"
  by (cases v)
     (auto simp: TeamSchema_def zObject_def invalidType_def issue_def ap_Inr_iff atKey_def
           dest!: zArray_exact)

lemma MatchMetaSchema_fields:
  "MatchMetaSchema up p v = Inr m \<Longrightarrow>
   length (field (MatchMeta.home m)) = 4 \<and> length (field (MatchMeta.away m)) = 4"
  by (cases v)
     (auto simp: MatchMetaSchema_def zObject_def invalidType_def issue_def ap_Inr_iff atKey_def
           dest!: TeamSchema_field)

lemma safeParse_formation: "safeParse em up v = Inr script \<Longrightarrow> formationCheck (match script) = []"
proof -
  assume "safeParse em up v = Inr script"
  then have s: "MatchScriptSchema up [] v = Inr script"
    by (simp add: safeParse_def split: sum.splits)
  then obtain m where "MatchMetaSchema up [Key ''match''] (propOf v ''match'') = Inr m" "match script = m"
    by (cases v)
       (auto simp: MatchScriptSchema_def zObject_def invalidType_def issue_def ap_Inr_iff atKey_def)
  then show ?thesis using MatchMetaSchema_fields by (simp add: formationCheck_def)
qed

lemma zArray_size_issue:
  "length xs \<noteq> 4 \<Longrightarrow>
   exactLengthIssue 4 (length xs) p \<in> set (issuesOf (zArray element (Some 4) p (RArr xs)))"
  by (auto simp: zArray_def issuesOf_ap)

lemma TeamSchema_size_issue:
  assumes "propOf v ''field'' = RArr xs" "length xs \<noteq> 4"
  shows "exactLengthIssue 4 (length xs) (p @ [Key ''field'']) \<in> set (issuesOf (TeamSchema up p v))"
proof -
  from assms(1) obtain kvs where "v = RObj kvs" using propOf_defined [of v "''field''"] by auto
  then show ?thesis
    using zArray_size_issue [OF assms(2), of "p @ [Key ''field'']" PlayerSchema] assms(1)
    by (simp add: TeamSchema_def zObject_def issuesOf_ap atKey_def)
qed

lemma MatchMetaSchema_size_issue:
  assumes "side = ''home'' \<or> side = ''away''"
    "propOf (propOf v side) ''field'' = RArr xs" "length xs \<noteq> 4"
  shows "exactLengthIssue 4 (length xs) (p @ [Key side, Key ''field'']) \<in> set (issuesOf (MatchMetaSchema up p v))"
proof -
  from assms(2) have "propOf v side \<noteq> RUndefined" by (auto simp: propOf_def)
  then obtain kvs where "v = RObj kvs" using propOf_defined by blast
  then show ?thesis
    using TeamSchema_size_issue [OF assms(2,3), of "p @ [Key side]" up] assms(1)
    by (auto simp: MatchMetaSchema_def zObject_def issuesOf_ap atKey_def)
qed

lemma MatchScriptSchema_size_issue:
  assumes "side = ''home'' \<or> side = ''away''"
    "propOf (propOf (propOf v ''match'') side) ''field'' = RArr xs" "length xs \<noteq> 4"
  shows "exactLengthIssue 4 (length xs) [Key ''match'', Key side, Key ''field'']
           \<in> set (issuesOf (MatchScriptSchema up [] v))"
proof -
  from assms(2) have "propOf (propOf v ''match'') side \<noteq> RUndefined" by (auto simp: propOf_def)
  then have "propOf v ''match'' \<noteq> RUndefined" by (auto simp: propOf_def)
  then obtain kvs where "v = RObj kvs" using propOf_defined by blast
  then show ?thesis
    using MatchMetaSchema_size_issue [OF assms, of "[Key ''match'']" up]
    by (simp add: MatchScriptSchema_def zObject_def issuesOf_ap atKey_def)
qed

lemma schemaError_tagged: "prefix ''[schema] '' (schemaError i)"
  by (simp add: schemaError_def)

text \<open>
  The formation check of the validator cannot be reached with a wrong count: no result
  holds a \<open>[formation]\<close> error, and a document in which the field-player list of the home
  or away team is an array of a length other than 4 fails the schema, so that the result
  is invalid, all its errors are \<open>[schema]\<close> errors, and one of them is the array-size
  issue at the path \<open>match.home.field\<close> (or \<open>match.away.field\<close>).
\<close>

theorem formation_rejected_by_schema:
  "(\<forall>r. validateScript em up v = Inr r \<longrightarrow> (\<forall>e \<in> set (errors r). \<not> prefix ''[formation]'' e))
   \<and> ((side = ''home'' \<or> side = ''away'')
        \<and> propOf (propOf (propOf v ''match'') side) ''field'' = RArr xs \<and> length xs \<noteq> 4
      \<longrightarrow> (\<exists>r. validateScript em up v = Inr r \<and> \<not> valid r
             \<and> (\<forall>e \<in> set (errors r). prefix ''[schema] '' e)
             \<and> schemaError (makeIssue em (exactLengthIssue 4 (length xs) [Key ''match'', Key side, Key ''field'']))
                 \<in> set (errors r)))"
proof (intro conjI allI impI)
  fix r assume r: "validateScript em up v = Inr r"
  show "\<forall>e \<in> set (errors r). \<not> prefix ''[formation]'' e"
  proof (cases "safeParse em up v")
    case (Inl ds)
    with r have "errors r = map schemaError ds" by (auto simp: validateScript_def)
    then show ?thesis by (auto simp: schemaError_def)
  next
    case (Inr script)
    with r semanticChecks_errors [of script] safeParse_formation [OF Inr]
    have e: "errors r = snd (identityCheck (match script)) @
         (if events script = [] then [''[events] Match has no events''] else []) @
         concat (map (\<lambda>j. eventErrors (fst (identityCheck (match script)) \<union>
                                          {''referee'', ''pbp'', ''color''}) j (events script ! j))
                   [0..<length (events script)])"
      by (auto simp: validateScript_def)
    have "\<not> prefix ''[formation]'' e" if "prefix ''[identity]'' e \<or> prefix ''[events]'' e" for e
      using that by (auto simp: prefix_def)
    then show ?thesis
      unfolding e using identityCheck_tagged [of "match script"] eventErrors_tagged
      by (fastforce split: if_splits)
  qed
next
  assume a: "(side = ''home'' \<or> side = ''away'')
        \<and> propOf (propOf (propOf v ''match'') side) ''field'' = RArr xs \<and> length xs \<noteq> 4"
  let ?d = "exactLengthIssue 4 (length xs) [Key ''match'', Key side, Key ''field'']"
  from a have m: "?d \<in> set (issuesOf (MatchScriptSchema up [] v))"
    by (intro MatchScriptSchema_size_issue) simp_all
  then obtain ds where ds: "MatchScriptSchema up [] v = Inl ds" "?d \<in> set ds"
    by (cases "MatchScriptSchema up [] v") auto
  then have "validateScript em up v =
      Inr \<lparr> valid = False, errors = map schemaError (map (makeIssue em) ds), warnings = [] \<rparr>"
    by (simp add: validateScript_def safeParse_def)
  with ds(2) show "\<exists>r. validateScript em up v = Inr r \<and> \<not> valid r
             \<and> (\<forall>e \<in> set (errors r). prefix ''[schema] '' e)
             \<and> schemaError (makeIssue em ?d) \<in> set (errors r)"
    by (auto simp: schemaError_tagged)
qed

text \<open>
  C3: a team whose field-player list has a length other than 4 yields exactly one
  \<open>[formation]\<close> error naming the team's code and the count.  The code has this check
  (\<open>Formation check (5v5, locked)\<close>) but never reaches it with a wrong count: the schema
  rejects the list first and validateScript returns.  For the sample document with three
  home field players the result holds one \<open>[schema]\<close> error and no \<open>[formation]\<close> error.
\<close>

theorem formation_error_not_produced:
  "validateScript sampleErrorMap asciiUpperCase (sampleDocument (take 3 rawHomeField) [rawKickoff]) =
     Inr \<lparr> valid = False, errors = [''[schema] match.home.field: Invalid input''], warnings = [] \<rparr>"
  by (simp add: validator_defs zod_defs document_defs enumerate_eq_zip natToString.simps)

theorem formation_rejected_by_schema_witness:
  "\<exists>r. validateScript sampleErrorMap asciiUpperCase (sampleDocument (take 3 rawHomeField) [rawKickoff]) = Inr r
     \<and> \<not> valid r \<and> ''[schema] match.home.field: Invalid input'' \<in> set (errors r)"
proof -
  let ?doc = "sampleDocument (take 3 rawHomeField) [rawKickoff]"
  have h: "propOf (propOf (propOf ?doc ''match'') ''home'') ''field'' = RArr (take 3 rawHomeField)"
    by (simp add: sampleDocument_def propOf_def)
  have l: "length (take 3 rawHomeField) \<noteq> 4"
    by (simp add: rawHomeField_def)
  have m: "schemaError (makeIssue sampleErrorMap
             (exactLengthIssue 4 (length (take 3 rawHomeField))
                [Key ''match'', Key ''home'', Key ''field''])) =
           ''[schema] match.home.field: Invalid input''"
    by (simp add: schemaError_def makeIssue_def exactLengthIssue_def joinPath_def sampleErrorMap_def)
  from formation_rejected_by_schema [of sampleErrorMap asciiUpperCase ?doc "''home''" "take 3 rawHomeField"] h l
  obtain r where "validateScript sampleErrorMap asciiUpperCase ?doc = Inr r" "\<not> valid r"
    "schemaError (makeIssue sampleErrorMap
             (exactLengthIssue 4 (length (take 3 rawHomeField))
                [Key ''match'', Key ''home'', Key ''field''])) \<in> set (errors r)"
    by auto
  then show ?thesis unfolding m by (intro exI conjI)
qed

theorem validateScript_result_witness:
  "\<exists>r. validateScript sampleErrorMap asciiUpperCase (sampleDocument rawHomeField [rawKickoff]) = Inr r
     \<and> valid r \<and> errors r = [] \<and> warnings r = [''[sequence] Match does not end with fulltime'']"
  using validateScript_result [of sampleErrorMap asciiUpperCase "sampleDocument rawHomeField [rawKickoff]"]
  by (simp add: validator_defs zod_defs document_defs enumerate_eq_zip natToString.simps
        minuteLoop.simps eventLoop.simps)

theorem pass_missing_fields_witness:
  "\<exists>r. validateScript sampleErrorMap asciiUpperCase (sampleDocument rawHomeField [rawKickoff, rawBarePass]) = Inr r
     \<and> count_list (errors r) (eventError 1 passMissingFrom) = 1
     \<and> count_list (errors r) (eventError 1 passMissingTo) = 1"
  using pass_missing_fields [OF sampleDocument_parsed, of 1]
  by (auto simp: sampleScript_def blankEvent_def truthy_def)

end
